theory Spec2Isabelle
  imports Complex_Main
begin

section \<open>Numbers\<close>

text \<open>
  The page script computes with JavaScript numbers.  The model reads them as real numbers,
  so sums, products and quotients are exact; integer quantities (scores, candidate counts,
  epoch milliseconds) are \<open>int\<close>.  \<open>Math.round\<close> rounds to the nearest integer
  with halves going up.  Where the rounding of double precision changes what a function
  returns, the function is modelled a second time in double precision, under the same
  name with the suffix \<open>_f64\<close>.
\<close>

definition Math_round :: "real \<Rightarrow> int" where
  "Math_round v = \<lfloor>v + 1 / 2\<rfloor>"

section \<open>Projection math\<close>

text \<open>A regression point \<open>{x, y}\<close> is a pair; \<open>fst\<close> is \<open>x\<close>, \<open>snd\<close> is \<open>y\<close>.\<close>

type_synonym pt = "real \<times> real"

text \<open>
  The object returned by a regression: its coefficients.  The closure \<open>eval\<close> of the
  source is the function \<open>evalModel\<close> applied to them.
\<close>

datatype regression =
    LinearModel real real
  | QuadraticModel real real real real real

fun evalModel :: "regression \<Rightarrow> real \<Rightarrow> real" where
  "evalModel (LinearModel slope intercept) x = slope * x + intercept"
| "evalModel (QuadraticModel a b c xMin xRange) x =
     (let xn = (x - xMin) / xRange in a * xn * xn + b * xn + c)"

definition linearRegression :: "pt list \<Rightarrow> regression option" where
  "linearRegression pts =
     (let n = length pts in
      if n < 2 then None
      else
        let sx = (\<Sum>p\<leftarrow>pts. fst p);
            sy = (\<Sum>p\<leftarrow>pts. snd p);
            sxy = (\<Sum>p\<leftarrow>pts. fst p * snd p);
            sxx = (\<Sum>p\<leftarrow>pts. fst p * fst p);
            d = real n * sxx - sx * sx
        in if \<bar>d\<bar> < 1 / 10 ^ 10 then None
           else
             let slope = (real n * sxy - sx * sy) / d;
                 intercept = (sy - slope * sx) / real n
             in Some (LinearModel slope intercept))"

definition det3 :: "real list list \<Rightarrow> real" where
  "det3 m =
     m ! 0 ! 0 * (m ! 1 ! 1 * m ! 2 ! 2 - m ! 1 ! 2 * m ! 2 ! 1)
   - m ! 0 ! 1 * (m ! 1 ! 0 * m ! 2 ! 2 - m ! 1 ! 2 * m ! 2 ! 0)
   + m ! 0 ! 2 * (m ! 1 ! 0 * m ! 2 ! 1 - m ! 1 ! 1 * m ! 2 ! 0)"

definition replCol :: "real list list \<Rightarrow> nat \<Rightarrow> real list \<Rightarrow> real list list" where
  "replCol m col v =
     map (\<lambda>i. map (\<lambda>j. if j = col then v ! i else m ! i ! j) [0..<length (m ! i)])
       [0..<length m]"

definition polyRegression :: "pt list \<Rightarrow> regression option" where
  "polyRegression pts =
     (let n = length pts in
      if n < 4 then linearRegression pts
      else
        let xMin = fst (pts ! 0);
            xRange = (if fst (pts ! (n - 1)) - xMin = 0 then 1 else fst (pts ! (n - 1)) - xMin);
            norm = map (\<lambda>p. ((fst p - xMin) / xRange, snd p)) pts;
            s0 = real n;
            s1 = (\<Sum>p\<leftarrow>norm. fst p);
            s2 = (\<Sum>p\<leftarrow>norm. fst p * fst p);
            s3 = (\<Sum>p\<leftarrow>norm. fst p * fst p * fst p);
            s4 = (\<Sum>p\<leftarrow>norm. fst p * fst p * (fst p * fst p));
            t0 = (\<Sum>p\<leftarrow>norm. snd p);
            t1 = (\<Sum>p\<leftarrow>norm. fst p * snd p);
            t2 = (\<Sum>p\<leftarrow>norm. fst p * fst p * snd p);
            M = [[s0, s1, s2], [s1, s2, s3], [s2, s3, s4]];
            T = [t0, t1, t2];
            D = det3 M
        in if \<bar>D\<bar> < 1 / 10 ^ 20 then linearRegression pts
           else
             let c = det3 (replCol M 0 T) / D;
                 b = det3 (replCol M 1 T) / D;
                 a = det3 (replCol M 2 T) / D
             in Some (QuadraticModel a b c xMin xRange))"

subsection \<open>What the specification asks of a linear fit\<close>

text \<open>The determinant of the normal equations, \<open>n * \<Sigma>x\<^sup>2 - (\<Sigma>x)\<^sup>2\<close>.\<close>

definition normalDet :: "pt list \<Rightarrow> real" where
  "normalDet pts =
     real (length pts) * (\<Sum>p\<leftarrow>pts. fst p * fst p) - (\<Sum>p\<leftarrow>pts. fst p) * (\<Sum>p\<leftarrow>pts. fst p)"

text \<open>The sum of squared residuals of the line \<open>y = a * x + b\<close> on the points.\<close>

definition sumSquaredResiduals :: "pt list \<Rightarrow> real \<Rightarrow> real \<Rightarrow> real" where
  "sumSquaredResiduals pts a b = (\<Sum>p\<leftarrow>pts. (snd p - (a * fst p + b)) ^ 2)"

section \<open>Pool distribution snapshots\<close>

text \<open>
  An element of \<open>distributionSnapshots\<close>: the round's date, the candidate counts keyed
  by the label of the score range, and the total.  A key that is absent reads as
  \<open>undefined\<close> in the source.
\<close>

record snapshot =
  snapDate :: string
  snapRanges :: "string \<rightharpoonup> int"
  snapTotal :: int

text \<open>\<open>str.split(sep)\<close> for a one-character separator.\<close>

fun splitOn :: "char \<Rightarrow> string \<Rightarrow> string list" where
  "splitOn sep [] = [[]]"
| "splitOn sep (ch # cs) =
     (if ch = sep then [] # splitOn sep cs
      else (case splitOn sep cs of
              [] \<Rightarrow> [[ch]]
            | w # ws \<Rightarrow> (ch # w) # ws))"

definition isDigit :: "char \<Rightarrow> bool" where
  "isDigit ch = (48 \<le> (of_char ch :: nat) \<and> (of_char ch :: nat) \<le> 57)"

text \<open>
  \<open>parseInt\<close> on a string of decimal digits followed by anything: the value of the
  leading digits, \<open>None\<close> (the source's \<open>NaN\<close>) when there is none.  Leading blanks,
  signs and radix prefixes are not modelled; no key of the range table has one.
\<close>

definition parseInt :: "string \<Rightarrow> int option" where
  "parseInt s =
     (let ds = takeWhile isDigit s in
      if ds = [] then None
      else Some (foldl (\<lambda>acc ch. 10 * acc + (int (of_char ch) - 48)) 0 ds))"

text \<open>The local table \<open>ranges\<close> of \<open>countAboveScore\<close>: key and lower bound, high to low.\<close>

definition scoreRanges :: "(string \<times> int) list" where
  "scoreRanges =
     [(''601-1200'', 601), (''501-600'', 501), (''491-500'', 491), (''481-490'', 481),
      (''471-480'', 471), (''461-470'', 461), (''451-460'', 451), (''441-450'', 441),
      (''431-440'', 431), (''421-430'', 421), (''411-420'', 411), (''401-410'', 401),
      (''351-400'', 351), (''301-350'', 301), (''0-300'', 0)]"

text \<open>\<open>dist.ranges[r.key] || 0\<close>.\<close>

definition bandCount :: "snapshot \<Rightarrow> string \<Rightarrow> int" where
  "bandCount dist' key = (case snapRanges dist' key of None \<Rightarrow> 0 | Some n \<Rightarrow> n)"

text \<open>
  \<open>r.key === '601-1200' ? 1200 : parseInt(r.key.split('-')[1])\<close>; \<open>None\<close> is \<open>NaN\<close>.
\<close>

definition rangeHi :: "string \<Rightarrow> int option" where
  "rangeHi key =
     (if key = ''601-1200'' then Some 1200
      else (case splitOn CHR ''-'' key of
              _ # s # _ \<Rightarrow> parseInt s
            | _ \<Rightarrow> None))"

text \<open>
  The loop of \<open>countAboveScore\<close> over the remaining ranges, with the running \<open>total\<close>.
  The \<open>break\<close> is the branch that does not recurse.  A comparison with \<open>NaN\<close> is
  false, so a range whose upper bound does not parse adds nothing.
\<close>

fun countLoop :: "snapshot \<Rightarrow> int \<Rightarrow> (string \<times> int) list \<Rightarrow> int \<Rightarrow> int" where
  "countLoop dist' cutoffScore [] total' = total'"
| "countLoop dist' cutoffScore ((key, lo) # rs) total' =
     (let count = bandCount dist' key in
      if cutoffScore \<le> lo then countLoop dist' cutoffScore rs (total' + count)
      else
        (case rangeHi key of
           None \<Rightarrow> total'
         | Some hi \<Rightarrow>
             let span = hi - lo + 1 in
             if cutoffScore \<le> hi then
               let above = hi - cutoffScore + 1 in
               total' + Math_round (real_of_int count * (real_of_int above / real_of_int span))
             else total'))"

definition countAboveScore :: "snapshot \<Rightarrow> int \<Rightarrow> int" where
  "countAboveScore dist' cutoffScore = countLoop dist' cutoffScore scoreRanges 0"

subsection \<open>What the specification asks of the count\<close>

text \<open>
  The bands as the specification has them: each band reaches from its lower bound to one
  below the lower bound of the band above it, the top band to the ceiling.
\<close>

fun withHighs :: "int \<Rightarrow> (string \<times> int) list \<Rightarrow> (string \<times> int \<times> int) list" where
  "withHighs cap [] = []"
| "withHighs cap ((key, lo) # rs) = (key, lo, cap) # withHighs (lo - 1) rs"

text \<open>
  A band entirely at or above the threshold contributes its count, the band straddling the
  threshold the rounded proportional share, a band below the threshold nothing.
\<close>

definition bandContribution :: "int \<Rightarrow> int \<Rightarrow> int \<Rightarrow> int \<Rightarrow> int" where
  "bandContribution threshold lo hi count =
     (if threshold \<le> lo then count
      else if threshold \<le> hi then
        Math_round (real_of_int count * real_of_int (hi - threshold + 1) / real_of_int (hi - lo + 1))
      else 0)"

definition countAtOrAbove :: "snapshot \<Rightarrow> int \<Rightarrow> int" where
  "countAtOrAbove s threshold =
     (\<Sum>(key, lo, hi)\<leftarrow>withHighs 1200 scoreRanges. bandContribution threshold lo hi (bandCount s key))"


section \<open>Dates\<close>

text \<open>
  The script reaches the calendar only through \<open>Date\<close>.  Its operations are taken as
  parameters, so every theorem below holds for any time zone and any date parser:
  \<^item> \<open>getTime s\<close> is \<open>new Date(s).getTime()\<close>, epoch milliseconds;
  \<^item> \<open>addMonths t k\<close> is the instant of \<open>d = new Date(t); d.setMonth(d.getMonth() + k)\<close>;
  \<^item> \<open>toISODate t\<close> is \<open>new Date(t).toISOString().split('T')[0]\<close>;
  \<^item> \<open>yearsBefore t k\<close> is \<open>new Date(y - k, m, d).getTime()\<close> for the local
    year, month and day \<open>y\<close>, \<open>m\<close>, \<open>d\<close> of the instant \<open>t\<close>.
  Dates that do not parse (\<open>NaN\<close>) are outside the model.
\<close>

record dateApi =
  getTime :: "string \<Rightarrow> int"
  addMonths :: "int \<Rightarrow> int \<Rightarrow> int"
  toISODate :: "real \<Rightarrow> string"
  yearsBefore :: "int \<Rightarrow> int \<Rightarrow> int"

subsection \<open>A concrete calendar: UTC\<close>

text \<open>
  The proleptic Gregorian calendar in UTC, for dates written \<open>YYYY-MM-DD\<close>, which
  \<open>Date\<close> reads as midnight UTC, and for instants from 1970 on in years of four
  digits.  It instantiates the parameter in the examples; no theorem that is stated for
  an arbitrary \<open>dateApi\<close> depends on it.
\<close>

definition daysFromCivil :: "int \<Rightarrow> int \<Rightarrow> int \<Rightarrow> int" where
  "daysFromCivil yr mo dy =
     (let y = (if mo \<le> 2 then yr - 1 else yr);
          era = y div 400;
          yoe = y - era * 400;
          mp = (if mo > 2 then mo - 3 else mo + 9);
          doy = (153 * mp + 2) div 5 + dy - 1;
          doe = yoe * 365 + yoe div 4 - yoe div 100 + doy
      in era * 146097 + doe - 719468)"

definition civilFromDays :: "int \<Rightarrow> int \<times> int \<times> int" where
  "civilFromDays days =
     (let z = days + 719468;
          era = z div 146097;
          doe = z - era * 146097;
          yoe = (doe - doe div 1460 + doe div 36524 - doe div 146096) div 365;
          doy = doe - (365 * yoe + yoe div 4 - yoe div 100);
          mp = (5 * doy + 2) div 153;
          dy = doy - (153 * mp + 2) div 5 + 1;
          mo = (if mp < 10 then mp + 3 else mp - 9);
          y = yoe + era * 400
      in (if mo \<le> 2 then y + 1 else y, mo, dy))"

definition digitsValue :: "string \<Rightarrow> int" where
  "digitsValue s = foldl (\<lambda>acc ch. 10 * acc + (int (of_char ch) - 48)) 0 s"

definition utcGetTime :: "string \<Rightarrow> int" where
  "utcGetTime s =
     (case splitOn CHR ''-'' s of
        [ys, ms, ds] \<Rightarrow> daysFromCivil (digitsValue ys) (digitsValue ms) (digitsValue ds) * 86400000
      | _ \<Rightarrow> 0)"

definition utcAddMonths :: "int \<Rightarrow> int \<Rightarrow> int" where
  "utcAddMonths t k =
     (case civilFromDays (t div 86400000) of
        (yr, mo, dy) \<Rightarrow>
          let months = yr * 12 + (mo - 1) + k
          in (daysFromCivil (months div 12) (months mod 12 + 1) 1 + (dy - 1)) * 86400000
             + t mod 86400000)"

definition utcYearsBefore :: "int \<Rightarrow> int \<Rightarrow> int" where
  "utcYearsBefore t k =
     (case civilFromDays (t div 86400000) of
        (yr, mo, dy) \<Rightarrow> (daysFromCivil (yr - k) mo 1 + (dy - 1)) * 86400000)"

definition digitChar :: "int \<Rightarrow> char" where
  "digitChar v = ''0123456789'' ! nat (v mod 10)"

definition pad2 :: "int \<Rightarrow> string" where
  "pad2 v = [digitChar (v div 10), digitChar v]"

definition pad4 :: "int \<Rightarrow> string" where
  "pad4 v = [digitChar (v div 1000), digitChar (v div 100), digitChar (v div 10), digitChar v]"

definition utcToISODate :: "real \<Rightarrow> string" where
  "utcToISODate t =
     (case civilFromDays (\<lfloor>t\<rfloor> div 86400000) of
        (yr, mo, dy) \<Rightarrow> pad4 yr @ ''-'' @ pad2 mo @ ''-'' @ pad2 dy)"

definition utcDates :: dateApi where
  "utcDates = \<lparr>getTime = utcGetTime, addMonths = utcAddMonths,
               toISODate = utcToISODate, yearsBefore = utcYearsBefore\<rparr>"

section \<open>The page: datasets and state\<close>

text \<open>
  A chart point \<open>{x, y, invitations, ...}\<close> of a category: the round's date, its cutoff
  score and the invitations issued.  (\<open>roundNumber\<close> and \<open>roundType\<close> are carried for
  the tooltip only.)
\<close>

record chartPoint =
  xDate :: string
  yScore :: int
  invitations :: int

record dataset =
  label :: string
  pointsOf :: "chartPoint list"

text \<open>
  The script's variables: the selected projection mode and time range, the hidden
  categories, the embedded snapshots, and the clock that \<open>new Date()\<close> reads.
\<close>

record page =
  projectionMode :: string
  timeRange :: string
  hiddenCategories :: "string set"
  distributionSnapshots :: "snapshot list"
  clock :: int

definition PROJECTION_MONTHS :: int where
  "PROJECTION_MONTHS = 6"

definition MOVING_AVG_WINDOW :: nat where
  "MOVING_AVG_WINDOW = 6"

text \<open>\<open>sorted.map(d => ({ x: new Date(d.x).getTime(), y: d.y }))\<close>, one point.\<close>

definition toPt :: "dateApi \<Rightarrow> chartPoint \<Rightarrow> pt" where
  "toPt D d = (real_of_int (getTime D (xDate d)), real_of_int (yScore d))"

text \<open>\<open>[...filtered].sort((a, b) => new Date(a.x).getTime() - new Date(b.x).getTime())\<close>;
  the sort is stable.\<close>

definition sortByDate :: "dateApi \<Rightarrow> chartPoint list \<Rightarrow> chartPoint list" where
  "sortByDate D filtered = sort_key (\<lambda>d. getTime D (xDate d)) filtered"

text \<open>The time-range filter, as \<open>buildDatasets\<close> and \<open>buildScoreResults\<close> both apply it.\<close>

definition rangeCutoff :: "dateApi \<Rightarrow> page \<Rightarrow> int" where
  "rangeCutoff D pg = (if timeRange pg = ''3y'' then yearsBefore D (clock pg) 3 else 0)"

definition filterRange :: "dateApi \<Rightarrow> page \<Rightarrow> dataset \<Rightarrow> chartPoint list" where
  "filterRange D pg ds =
     (let cutoff = rangeCutoff D pg in
      if cutoff > 0 then filter (\<lambda>d. getTime D (xDate d) \<ge> cutoff) (pointsOf ds)
      else pointsOf ds)"

text \<open>The inner loop \<open>for (j = i - W + 1; j <= i; j++) sum += arr[j].y\<close>.\<close>

definition windowSum :: "real list \<Rightarrow> nat \<Rightarrow> real" where
  "windowSum ys i = (\<Sum>j\<leftarrow>[i + 1 - MOVING_AVG_WINDOW..<i + 1]. ys ! j)"

text \<open>\<open>arr.slice(-k)\<close>.\<close>

definition sliceLast :: "nat \<Rightarrow> 'a list \<Rightarrow> 'a list" where
  "sliceLast k xs = drop (length xs - k) xs"

section \<open>Pool-aware projection\<close>

fun closestLoop ::
  "dateApi \<Rightarrow> int \<Rightarrow> snapshot list \<Rightarrow> (snapshot \<times> int) option \<Rightarrow> (snapshot \<times> int) option" where
  "closestLoop D dateMs [] best = best"
| "closestLoop D dateMs (snap # rest) best =
     (let diff = \<bar>getTime D (snapDate snap) - dateMs\<bar> in
      closestLoop D dateMs rest
        (case best of
           None \<Rightarrow> Some (snap, diff)
         | Some (b, bestDiff) \<Rightarrow> if diff < bestDiff then Some (snap, diff) else best))"

text \<open>\<open>bestDiff\<close> starts at \<open>Infinity\<close>, here \<open>None\<close>: the first snapshot always wins.\<close>

definition findClosestDist :: "dateApi \<Rightarrow> page \<Rightarrow> int \<Rightarrow> snapshot option" where
  "findClosestDist D pg dateMs =
     (if distributionSnapshots pg = [] then None
      else (case closestLoop D dateMs (distributionSnapshots pg) None of
              None \<Rightarrow> None
            | Some (b, bestDiff) \<Rightarrow>
                if bestDiff > 30 * 24 * 60 * 60 * 1000 then None else Some b))"

definition getLatestDistribution :: "page \<Rightarrow> snapshot option" where
  "getLatestDistribution pg =
     (if distributionSnapshots pg = [] then None else Some (last (distributionSnapshots pg)))"

text \<open>The entries \<open>{x, ratio, cutoff, invitations}\<close> pushed for the rounds of a category.\<close>

definition ratioSeries :: "dateApi \<Rightarrow> page \<Rightarrow> chartPoint list \<Rightarrow> (int \<times> real \<times> int \<times> int) list" where
  "ratioSeries D pg sorted' =
     concat (map (\<lambda>d.
       if invitations d \<le> 0 then []
       else
         let dateMs = getTime D (xDate d) in
         (case findClosestDist D pg dateMs of
            None \<Rightarrow> []
          | Some dist' \<Rightarrow>
              let above = countAboveScore dist' (yScore d)
              in [(dateMs, real_of_int above / real_of_int (invitations d), yScore d, invitations d)]))
       sorted')"

text \<open>
  The search loop of \<open>getPoolAwareProjection\<close>:
  \<open>for (let t = lastT; t <= maxT; t += step)\<close> with \<open>step = 7 * 24 * 60 * 60 * 1000\<close>.
\<close>

function poolSearch :: "regression \<Rightarrow> real \<Rightarrow> int \<Rightarrow> int option" where
  "poolSearch reg maxT t =
     (if real_of_int t \<le> maxT then
        (let projected = evalModel reg (real_of_int t) in
         if projected \<le> 1 then Some t
         else poolSearch reg maxT (t + 7 * 24 * 60 * 60 * 1000))
      else None)"
  by pat_completeness auto
termination
  by (relation "measure (\<lambda>(reg, maxT, t). nat (\<lfloor>maxT\<rfloor> - t + 1))") (auto simp: le_floor_iff)

declare poolSearch.simps [simp del]

text \<open>The last block of \<open>getPoolAwareProjection\<close>: the horizon and the search.\<close>

definition poolCrossingFrom :: "regression \<Rightarrow> int \<Rightarrow> int option" where
  "poolCrossingFrom reg lastT =
     (let maxT = real_of_int lastT + 3 * 365.25 * 24 * 60 * 60 * 1000
      in poolSearch reg maxT lastT)"

text \<open>
  \<open>sorted.slice(-10).map(d => d.invitations).filter(n => n > 0).sort((a, b) => a - b)\<close>
  and the element at \<open>Math.floor(length / 2)\<close>, read only when the list is not empty.
\<close>

definition recentInvitations :: "chartPoint list \<Rightarrow> int list" where
  "recentInvitations sorted' = sort (filter (\<lambda>n. n > 0) (map invitations (sliceLast 10 sorted')))"

definition medianInvitations :: "chartPoint list \<Rightarrow> int" where
  "medianInvitations sorted' =
     recentInvitations sorted' ! (length (recentInvitations sorted') div 2)"

text \<open>\<open>userAbove / medianInvitations\<close> for the latest snapshot.\<close>

definition userRatio :: "snapshot \<Rightarrow> chartPoint list \<Rightarrow> int \<Rightarrow> real" where
  "userRatio latestDist sorted' userScore =
     real_of_int (countAboveScore latestDist userScore) / real_of_int (medianInvitations sorted')"

text \<open>
  The result is the instant found and the mark \<open>' *'\<close> of a pool-aware date; the month
  label that \<open>toLocaleDateString\<close> renders from the instant is not modelled.
\<close>

definition getPoolAwareProjection ::
  "dateApi \<Rightarrow> page \<Rightarrow> chartPoint list \<Rightarrow> int \<Rightarrow> (int \<times> bool) option" where
  "getPoolAwareProjection D pg sorted' userScore =
     (if length (ratioSeries D pg sorted') < 3 then None
      else
        (case getLatestDistribution pg of
           None \<Rightarrow> None
         | Some latestDist \<Rightarrow>
             if recentInvitations sorted' = [] then None
             else if userRatio latestDist sorted' userScore \<le> 1 then None
             else
               let userRatioSeries =
                     map (\<lambda>snap. (real_of_int (getTime D (snapDate snap)),
                                  real_of_int (countAboveScore snap userScore)
                                    / real_of_int (medianInvitations sorted')))
                       (distributionSnapshots pg)
               in if length userRatioSeries < 2 then None
                  else
                    let regFn0 = linearRegression;
                        regFn1 = (if projectionMode pg = ''poly'' then polyRegression else regFn0);
                        regFn =
                          (if projectionMode pg = ''moving-avg''
                              \<and> length userRatioSeries \<ge> MOVING_AVG_WINDOW
                           then
                             let smoothed =
                                   map (\<lambda>i. (fst (userRatioSeries ! i),
                                              windowSum (map snd userRatioSeries) i
                                                / real MOVING_AVG_WINDOW))
                                     [MOVING_AVG_WINDOW - 1..<length userRatioSeries];
                                 tail = sliceLast 3 smoothed
                             in (\<lambda>_. linearRegression tail)
                           else regFn1)
                    in (case regFn userRatioSeries of
                          None \<Rightarrow> None
                        | Some reg \<Rightarrow>
                            let lastT = getTime D (snapDate (last (distributionSnapshots pg)))
                            in map_option (\<lambda>t. (t, True)) (poolCrossingFrom reg lastT))))"

section \<open>Trend crossing and the eligibility verdict\<close>

text \<open>The search loop of \<open>getProjectedCrossing\<close>.\<close>

function trendSearch :: "regression \<Rightarrow> int \<Rightarrow> real \<Rightarrow> int \<Rightarrow> int option" where
  "trendSearch reg score maxT t =
     (if real_of_int t \<le> maxT then
        (let projected = evalModel reg (real_of_int t) in
         if projected \<le> real_of_int score then Some t
         else trendSearch reg score maxT (t + 7 * 24 * 60 * 60 * 1000))
      else None)"
  by pat_completeness auto
termination
  by (relation "measure (\<lambda>(reg, score, maxT, t). nat (\<lfloor>maxT\<rfloor> - t + 1))") (auto simp: le_floor_iff)

declare trendSearch.simps [simp del]

definition trendCrossingFrom :: "regression \<Rightarrow> int \<Rightarrow> int \<Rightarrow> int option" where
  "trendCrossingFrom reg score lastT =
     (let maxT = real_of_int lastT + 3 * 365.25 * 24 * 60 * 60 * 1000
      in trendSearch reg score maxT lastT)"

text \<open>The fallback of \<open>getProjectedCrossing\<close>, after the pool-aware attempt.\<close>

definition trendProjection :: "dateApi \<Rightarrow> page \<Rightarrow> chartPoint list \<Rightarrow> int \<Rightarrow> (int \<times> bool) option" where
  "trendProjection D pg sorted' score =
     (let pts = map (toPt D) sorted';
          regFn0 = linearRegression;
          regFn1 = (if projectionMode pg = ''poly'' then polyRegression else regFn0)
      in if projectionMode pg = ''moving-avg'' \<and> length sorted' < MOVING_AVG_WINDOW then None
         else
           let regFn =
                 (if projectionMode pg = ''moving-avg'' then
                    let smoothed =
                          map (\<lambda>i. (real_of_int (getTime D (xDate (sorted' ! i))),
                                     windowSum (map (\<lambda>d. real_of_int (yScore d)) sorted') i
                                       / real MOVING_AVG_WINDOW))
                            [MOVING_AVG_WINDOW - 1..<length sorted'];
                        tail = sliceLast 3 smoothed
                    in (\<lambda>_. linearRegression tail)
                  else regFn1)
           in (case regFn pts of
                 None \<Rightarrow> None
               | Some reg \<Rightarrow>
                   let lastT = getTime D (xDate (last sorted'))
                   in map_option (\<lambda>t. (t, False)) (trendCrossingFrom reg score lastT)))"

definition getProjectedCrossing ::
  "dateApi \<Rightarrow> page \<Rightarrow> chartPoint list \<Rightarrow> int \<Rightarrow> (int \<times> bool) option" where
  "getProjectedCrossing D pg sorted' score =
     (let poolResult =
            (if length (distributionSnapshots pg) \<ge> 3
             then getPoolAwareProjection D pg sorted' score else None)
      in (case poolResult of
            Some r \<Rightarrow> Some r
          | None \<Rightarrow> trendProjection D pg sorted' score))"

text \<open>
  What a result card says: eligible now with the number of past rounds, a projected
  instant and whether it is pool-aware, the date of the last eligible round, or that the
  score is too low.
\<close>

datatype verdict =
    Eligible nat
  | Projected int bool
  | LastEligible string
  | Ineligible

text \<open>
  The body of the \<open>forEach\<close> of \<open>buildScoreResults\<close> for one dataset: \<open>None\<close> when the
  callback returns without adding a card.
\<close>

definition scoreCard :: "dateApi \<Rightarrow> page \<Rightarrow> int \<Rightarrow> dataset \<Rightarrow> verdict option" where
  "scoreCard D pg score ds =
     (if label ds \<in> hiddenCategories pg then None
      else
        let filtered = filterRange D pg ds in
        if length filtered < 2 then None
        else
          let sorted' = sortByDate D filtered;
              eligible = filter (\<lambda>d. yScore d \<le> score) sorted';
              lastEligible = (if length eligible > 0 then Some (last eligible) else None);
              mostRecent = last sorted';
              currentlyEligible = (yScore mostRecent \<le> score);
              projectedDate =
                (if projectionMode pg \<noteq> ''off'' \<and> \<not> currentlyEligible
                 then getProjectedCrossing D pg sorted' score else None)
          in Some
               (if currentlyEligible then Eligible (length eligible)
                else (case projectedDate of
                        Some (t, isPoolAware) \<Rightarrow> Projected t isPoolAware
                      | None \<Rightarrow>
                          (case lastEligible of
                             Some d \<Rightarrow> LastEligible (xDate d)
                           | None \<Rightarrow> Ineligible))))"

text \<open>The cards in the order of the datasets; none when no score is set.\<close>

definition buildScoreResults ::
  "dateApi \<Rightarrow> page \<Rightarrow> int \<Rightarrow> dataset list \<Rightarrow> (string \<times> verdict) list" where
  "buildScoreResults D pg score originalDatasets =
     (if score \<le> 0 then []
      else List.map_filter
             (\<lambda>ds. map_option (\<lambda>v. (label ds, v)) (scoreCard D pg score ds))
             originalDatasets)"

section \<open>Projection datasets\<close>

text \<open>
  A generated point and the dataset that holds the points.  The constant fields
  (\<open>roundNumber: '~'\<close>, \<open>invitations: 0\<close>, \<open>isProjection: true\<close>) and the styling of
  the line are left out.  A point is marked as a forecast in its \<open>roundType\<close>.
\<close>

record projPoint =
  projX :: string
  projY :: int
  projRoundType :: string
  projMethod :: string

record projDataset =
  projLabel :: string
  projData :: "projPoint list"

definition regressionProjection ::
  "dateApi \<Rightarrow> chartPoint list \<Rightarrow> string \<Rightarrow> (pt list \<Rightarrow> regression option) \<Rightarrow> string
     \<Rightarrow> projDataset option" where
  "regressionProjection D filtered dsLabel regFn suffix =
     (if length filtered < 3 then None
      else
        let sorted' = sortByDate D filtered;
            pts = map (toPt D) sorted'
        in (case regFn pts of
              None \<Rightarrow> None
            | Some reg \<Rightarrow>
                let firstT = getTime D (xDate (sorted' ! 0));
                    lastT = getTime D (xDate (last sorted'));
                    totalSteps = (40 :: nat);
                    projEndT = addMonths D lastT PROJECTION_MONTHS
                in Some
                     \<lparr>projLabel = dsLabel @ '' ('' @ suffix @ '')'',
                      projData =
                        map (\<lambda>i.
                               let t = real_of_int firstT
                                         + real_of_int (projEndT - firstT) * (real i / real totalSteps);
                                   isFuture = (t > real_of_int lastT)
                               in \<lparr>projX = toISODate D t,
                                   projY = max 0 (Math_round (evalModel reg t)),
                                   projRoundType =
                                     dsLabel @ '' ('' @ suffix
                                       @ (if isFuture then '' forecast'' else '' trend'') @ '')'',
                                   projMethod = suffix\<rparr>)
                          [0..<totalSteps + 1]\<rparr>))"

definition movingAvgProjection :: "dateApi \<Rightarrow> chartPoint list \<Rightarrow> string \<Rightarrow> projDataset option" where
  "movingAvgProjection D filtered dsLabel =
     (if length filtered < MOVING_AVG_WINDOW then None
      else
        let sorted' = sortByDate D filtered;
            smoothed =
              map (\<lambda>i. \<lparr>projX = xDate (sorted' ! i),
                         projY = Math_round (windowSum (map (\<lambda>d. real_of_int (yScore d)) sorted') i
                                               / real MOVING_AVG_WINDOW),
                         projRoundType = dsLabel @ '' (moving avg)'',
                         projMethod = ''moving-avg''\<rparr>)
                [MOVING_AVG_WINDOW - 1..<length sorted'];
            forecast =
              (if length smoothed \<ge> 2 then
                 let tail = sliceLast 3 smoothed;
                     pts = map (\<lambda>p. (real_of_int (getTime D (projX p)), real_of_int (projY p))) tail
                 in (case linearRegression pts of
                       None \<Rightarrow> []
                     | Some reg \<Rightarrow>
                         let startT = getTime D (projX (last smoothed));
                             endT = addMonths D startT PROJECTION_MONTHS
                         in map (\<lambda>i.
                                   let t = real_of_int startT
                                             + real_of_int (endT - startT) * (real i / 12)
                                   in \<lparr>projX = toISODate D t,
                                       projY = max 0 (Math_round (evalModel reg t)),
                                       projRoundType = dsLabel @ '' (moving avg forecast)'',
                                       projMethod = ''moving-avg''\<rparr>)
                              [1..<13])
               else [])
        in Some \<lparr>projLabel = dsLabel @ '' (ma)'', projData = smoothed @ forecast\<rparr>)"

text \<open>
  \<open>buildDatasets\<close>: each dataset with its points filtered by the time range, followed by
  its projection when the mode asks for one and the fit gives one.
\<close>

definition buildDatasets :: "dateApi \<Rightarrow> page \<Rightarrow> dataset list \<Rightarrow> (dataset + projDataset) list" where
  "buildDatasets D pg originalDatasets =
     concat (map (\<lambda>ds.
       let filtered = filterRange D pg ds in
       Inl (ds\<lparr>pointsOf := filtered\<rparr>) #
         (if projectionMode pg = ''off'' \<or> length filtered < 3 then []
          else
            (if projectionMode pg = ''linear'' then
               (case regressionProjection D filtered (label ds) linearRegression ''linear'' of
                  None \<Rightarrow> [] | Some proj \<Rightarrow> [Inr proj])
             else [])
            @ (if projectionMode pg = ''moving-avg'' then
                 (case movingAvgProjection D filtered (label ds) of
                    None \<Rightarrow> [] | Some proj \<Rightarrow> [Inr proj])
               else [])
            @ (if projectionMode pg = ''poly'' then
                 (case regressionProjection D filtered (label ds) polyRegression ''polynomial'' of
                    None \<Rightarrow> [] | Some proj \<Rightarrow> [Inr proj])
               else [])))
       originalDatasets)"

section \<open>Building the snapshots from the rounds\<close>

record scoreDistribution =
  range601_1200 :: int
  range501_600 :: int
  range491_500 :: int
  range481_490 :: int
  range471_480 :: int
  range461_470 :: int
  range451_460 :: int
  range441_450 :: int
  range431_440 :: int
  range421_430 :: int
  range411_420 :: int
  range401_410 :: int
  range351_400 :: int
  range301_350 :: int
  range0_300 :: int
  distTotal :: int
  asOfDate :: string

record drawRound =
  roundNumber :: int
  roundDate :: string
  roundType :: string
  invitationsIssued :: int
  crsScore :: int
  distribution :: "scoreDistribution option"

text \<open>The object pushed to \<open>distSnapshots\<close> for a round \<open>r\<close> with distribution \<open>d\<close>.\<close>

definition toSnapshot :: "drawRound \<times> scoreDistribution \<Rightarrow> snapshot" where
  "toSnapshot rd =
     (case rd of (r, d) \<Rightarrow>
        \<lparr>snapDate = roundDate r,
         snapRanges =
           [''601-1200'' \<mapsto> range601_1200 d, ''501-600'' \<mapsto> range501_600 d,
            ''491-500'' \<mapsto> range491_500 d, ''481-490'' \<mapsto> range481_490 d,
            ''471-480'' \<mapsto> range471_480 d, ''461-470'' \<mapsto> range461_470 d,
            ''451-460'' \<mapsto> range451_460 d, ''441-450'' \<mapsto> range441_450 d,
            ''431-440'' \<mapsto> range431_440 d, ''421-430'' \<mapsto> range421_430 d,
            ''411-420'' \<mapsto> range411_420 d, ''401-410'' \<mapsto> range401_410 d,
            ''351-400'' \<mapsto> range351_400 d, ''301-350'' \<mapsto> range301_350 d,
            ''0-300'' \<mapsto> range0_300 d],
         snapTotal = distTotal d\<rparr>)"

text \<open>
  \<open>distRounds\<close>: the rounds that have a distribution with a positive total, each paired
  with that distribution, sorted by the round's date (the sort is stable).
\<close>

definition withDistribution :: "drawRound list \<Rightarrow> (drawRound \<times> scoreDistribution) list" where
  "withDistribution rounds =
     List.map_filter
       (\<lambda>r. case distribution r of
               None \<Rightarrow> None
             | Some d \<Rightarrow> if distTotal d > 0 then Some (r, d) else None)
       rounds"

definition distRounds :: "dateApi \<Rightarrow> drawRound list \<Rightarrow> (drawRound \<times> scoreDistribution) list" where
  "distRounds D rounds =
     sort_key (\<lambda>rd. getTime D (roundDate (fst rd))) (withDistribution rounds)"

text \<open>\<open>d.asOfDate || r.date\<close>.\<close>

definition snapshotKey :: "drawRound \<times> scoreDistribution \<Rightarrow> string" where
  "snapshotKey rd = (if asOfDate (snd rd) \<noteq> [] then asOfDate (snd rd) else roundDate (fst rd))"

text \<open>The loop over \<open>distRounds\<close> with the set \<open>seenDates\<close>; the rounds it keeps.\<close>

fun keepUnseen ::
  "(drawRound \<times> scoreDistribution) list \<Rightarrow> string set \<Rightarrow> (drawRound \<times> scoreDistribution) list" where
  "keepUnseen [] seenDates = []"
| "keepUnseen (rd # rest) seenDates =
     (let key = snapshotKey rd in
      if key \<in> seenDates then keepUnseen rest seenDates
      else rd # keepUnseen rest (insert key seenDates))"

definition distSnapshots :: "dateApi \<Rightarrow> drawRound list \<Rightarrow> snapshot list" where
  "distSnapshots D rounds = map toSnapshot (keepUnseen (distRounds D rounds) {})"

section \<open>Double-precision arithmetic\<close>

text \<open>
  The script's numbers are IEEE 754 doubles.  The definitions above read them as real
  numbers; the definitions of this section follow the source operation by operation in
  double precision, for the two functions whose results depend on the rounding.

  A finite double is \<open>m * 2 ^ e\<close> and is written as the pair \<open>(m, e)\<close>; several
  pairs may denote the same number.  An operation computes the exact result and rounds it
  to the nearest number with 53 significant bits (a multiple of \<open>2 ^ -1074\<close> below the
  normal range), a tie going to the even neighbour.  Overflow to \<open>Infinity\<close>, \<open>NaN\<close>
  and the sign of zero are not modelled, and no function below divides by zero.
\<close>

type_synonym f64 = "int \<times> int"

definition toReal :: "f64 \<Rightarrow> real" where
  "toReal v =
     (case v of (m, e) \<Rightarrow>
        if 0 \<le> e then real_of_int m * 2 ^ nat e else real_of_int m / 2 ^ nat (- e))"

text \<open>The number of bits of a positive integer.\<close>

function bitLength :: "int \<Rightarrow> nat" where
  "bitLength m = (if m \<le> 0 then 0 else Suc (bitLength (m div 2)))"
  by pat_completeness auto
termination
  by (relation "measure nat") auto

declare bitLength.simps [simp del]

text \<open>\<open>m / 2 ^ k\<close> rounded to the nearest integer, a tie going to the even one.\<close>

definition roundShift :: "int \<Rightarrow> nat \<Rightarrow> int" where
  "roundShift m k =
     (let q = m div 2 ^ k;
          r = m mod 2 ^ k
      in if 2 * r < 2 ^ k then q
         else if 2 * r > 2 ^ k then q + 1
         else if even q then q else q + 1)"

text \<open>The double nearest to \<open>m * 2 ^ e\<close>.\<close>

definition fl :: "f64 \<Rightarrow> f64" where
  "fl v =
     (case v of (m, e) \<Rightarrow>
        if m = 0 then (0, 0)
        else
          let qe = max (e + int (bitLength \<bar>m\<bar>) - 53) (- 1074)
          in if qe \<le> e then (m, e) else (roundShift m (nat (qe - e)), qe))"

definition fadd :: "f64 \<Rightarrow> f64 \<Rightarrow> f64" where
  "fadd a b =
     (case a of (m1, e1) \<Rightarrow> case b of (m2, e2) \<Rightarrow>
        let e = min e1 e2
        in fl (m1 * 2 ^ nat (e1 - e) + m2 * 2 ^ nat (e2 - e), e))"

definition fsub :: "f64 \<Rightarrow> f64 \<Rightarrow> f64" where
  "fsub a b =
     (case a of (m1, e1) \<Rightarrow> case b of (m2, e2) \<Rightarrow>
        let e = min e1 e2
        in fl (m1 * 2 ^ nat (e1 - e) - m2 * 2 ^ nat (e2 - e), e))"

definition fmul :: "f64 \<Rightarrow> f64 \<Rightarrow> f64" where
  "fmul a b = (case a of (m1, e1) \<Rightarrow> case b of (m2, e2) \<Rightarrow> fl (m1 * m2, e1 + e2))"

text \<open>
  The quotient, for a divisor that is not zero: the integer quotient of the magnitudes,
  scaled to at least 55 bits, with one more bit that is set when the division leaves a
  remainder, so that the rounding sees on which side of a tie the exact quotient lies.
\<close>

definition fdiv :: "f64 \<Rightarrow> f64 \<Rightarrow> f64" where
  "fdiv a b =
     (case a of (m1, e1) \<Rightarrow> case b of (m2, e2) \<Rightarrow>
        if m1 = 0 then (0, 0)
        else
          let s = nat (max 0 (55 + int (bitLength \<bar>m2\<bar>) - int (bitLength \<bar>m1\<bar>)));
              n = \<bar>m1\<bar> * 2 ^ s;
              q = n div \<bar>m2\<bar>;
              sticky = (if n mod \<bar>m2\<bar> = 0 then 0 else 1);
              sign = (if (m1 < 0) = (m2 < 0) then 1 else - 1)
          in fl (sign * (2 * q + sticky), e1 - e2 - int s - 1))"

definition fabs :: "f64 \<Rightarrow> f64" where
  "fabs a = (case a of (m, e) \<Rightarrow> (\<bar>m\<bar>, e))"

definition fless :: "f64 \<Rightarrow> f64 \<Rightarrow> bool" where
  "fless a b =
     (case a of (m1, e1) \<Rightarrow> case b of (m2, e2) \<Rightarrow>
        let e = min e1 e2
        in m1 * 2 ^ nat (e1 - e) < m2 * 2 ^ nat (e2 - e))"

text \<open>An integer as a number of the script.\<close>

definition ofInt :: "int \<Rightarrow> f64" where
  "ofInt n = fl (n, 0)"

text \<open>\<open>Math.round\<close> of a double: \<open>\<lfloor>v + 1 / 2\<rfloor>\<close>, computed exactly.\<close>

definition Math_round_f64 :: "f64 \<Rightarrow> int" where
  "Math_round_f64 v =
     (case v of (m, e) \<Rightarrow>
        if 0 \<le> e then m * 2 ^ nat e
        else (2 * m + 2 ^ nat (- e)) div 2 ^ (nat (- e) + 1))"

subsection \<open>The linear regression in double precision\<close>

text \<open>
  \<open>linearRegression\<close> with the accumulation loop (the four sums \<open>sx\<close>, \<open>sy\<close>,
  \<open>sxy\<close>, \<open>sxx\<close>) and every operation as the source has them.  The literal \<open>1e-10\<close> is the double nearest to \<open>1 / 10 ^ 10\<close>, which the
  rounded quotient of the two exact numbers gives.  The result holds \<open>slope\<close> and
  \<open>intercept\<close>.
\<close>

definition sums_f64 :: "(f64 \<times> f64) list \<Rightarrow> f64 \<times> f64 \<times> f64 \<times> f64" where
  "sums_f64 pts =
     (foldl (\<lambda>acc p. fadd acc (fst p)) (0, 0) pts,
      foldl (\<lambda>acc p. fadd acc (snd p)) (0, 0) pts,
      foldl (\<lambda>acc p. fadd acc (fmul (fst p) (snd p))) (0, 0) pts,
      foldl (\<lambda>acc p. fadd acc (fmul (fst p) (fst p))) (0, 0) pts)"

text \<open>The value \<open>d = n * sxx - sx * sx\<close> that the source computes.\<close>

definition normalDet_f64 :: "(f64 \<times> f64) list \<Rightarrow> f64" where
  "normalDet_f64 pts =
     (case sums_f64 pts of (sx, sy, sxy, sxx) \<Rightarrow>
        fsub (fmul (ofInt (int (length pts))) sxx) (fmul sx sx))"

definition linearRegression_f64 :: "(f64 \<times> f64) list \<Rightarrow> (f64 \<times> f64) option" where
  "linearRegression_f64 pts =
     (let n = length pts in
      if n < 2 then None
      else
        (case sums_f64 pts of (sx, sy, sxy, sxx) \<Rightarrow>
           let d = normalDet_f64 pts
           in if fless (fabs d) (fdiv (1, 0) (10000000000, 0)) then None
              else
                let slope = fdiv (fsub (fmul (ofInt (int n)) sxy) (fmul sx sy)) d;
                    intercept = fdiv (fsub sy (fmul slope sx)) (ofInt (int n))
                in Some (slope, intercept)))"

text \<open>The closure \<open>eval\<close> of the returned object, \<open>slope * x + intercept\<close>.\<close>

definition evalLinear_f64 :: "f64 \<times> f64 \<Rightarrow> f64 \<Rightarrow> f64" where
  "evalLinear_f64 reg x = (case reg of (slope, intercept) \<Rightarrow> fadd (fmul slope x) intercept)"

subsection \<open>The count in double precision\<close>

text \<open>
  \<open>countAboveScore\<close> with the share of the straddled range computed as the source
  computes it: the quotient \<open>above / span\<close> is rounded, then the product with the
  count is rounded, then \<open>Math.round\<close> is taken.  The sum of the counts is a sum of
  integers.
\<close>

fun countLoop_f64 :: "snapshot \<Rightarrow> int \<Rightarrow> (string \<times> int) list \<Rightarrow> int \<Rightarrow> int" where
  "countLoop_f64 dist' cutoffScore [] total' = total'"
| "countLoop_f64 dist' cutoffScore ((key, lo) # rs) total' =
     (let count = bandCount dist' key in
      if cutoffScore \<le> lo then countLoop_f64 dist' cutoffScore rs (total' + count)
      else
        (case rangeHi key of
           None \<Rightarrow> total'
         | Some hi \<Rightarrow>
             let span = hi - lo + 1 in
             if cutoffScore \<le> hi then
               let above = hi - cutoffScore + 1 in
               total' + Math_round_f64 (fmul (ofInt count) (fdiv (ofInt above) (ofInt span)))
             else total'))"

definition countAboveScore_f64 :: "snapshot \<Rightarrow> int \<Rightarrow> int" where
  "countAboveScore_f64 dist' cutoffScore = countLoop_f64 dist' cutoffScore scoreRanges 0"

section \<open>Example data\<close>

text \<open>A round with a distribution whose candidates all sit in the top range.\<close>

definition exampleDistribution :: "int \<Rightarrow> string \<Rightarrow> scoreDistribution" where
  "exampleDistribution n asOf =
     \<lparr>range601_1200 = n, range501_600 = 0, range491_500 = 0, range481_490 = 0,
      range471_480 = 0, range461_470 = 0, range451_460 = 0, range441_450 = 0,
      range431_440 = 0, range421_430 = 0, range411_420 = 0, range401_410 = 0,
      range351_400 = 0, range301_350 = 0, range0_300 = 0,
      distTotal = n, asOfDate = asOf\<rparr>"

definition exampleRound :: "int \<Rightarrow> string \<Rightarrow> int \<Rightarrow> string \<Rightarrow> drawRound" where
  "exampleRound no day n asOf =
     \<lparr>roundNumber = no, roundDate = day, roundType = ''General'',
      invitationsIssued = 1000, crsScore = 500,
      distribution = Some (exampleDistribution n asOf)\<rparr>"

text \<open>
  Two rounds that report the same pool snapshot; the later round comes first in the input.
\<close>

definition laterRoundFirst :: "drawRound list" where
  "laterRoundFirst =
     [exampleRound 2 ''2025-02-05'' 100 ''2025-01-20'',
      exampleRound 1 ''2025-01-22'' 200 ''2025-01-20'']"

text \<open>Three rounds in date order; the last two report the same pool snapshot.\<close>

definition threeRounds :: "drawRound list" where
  "threeRounds =
     [exampleRound 1 ''2025-01-08'' 300 ''2025-01-06'',
      exampleRound 2 ''2025-01-22'' 200 ''2025-01-20'',
      exampleRound 3 ''2025-02-05'' 100 ''2025-01-20'']"

text \<open>
  A page with three pool snapshots two weeks apart and a category whose cutoff falls by
  ten points from round to round, each round on the day of a snapshot.
\<close>

definition exampleSnapshot :: "string \<Rightarrow> snapshot" where
  "exampleSnapshot day =
     \<lparr>snapDate = day,
      snapRanges = [''601-1200'' \<mapsto> 100, ''501-600'' \<mapsto> 200],
      snapTotal = 300\<rparr>"

definition examplePage :: page where
  "examplePage =
     \<lparr>projectionMode = ''linear'', timeRange = ''all'', hiddenCategories = {},
      distributionSnapshots =
        [exampleSnapshot ''2024-01-03'', exampleSnapshot ''2024-01-17'',
         exampleSnapshot ''2024-01-31''],
      clock = 1706745600000\<rparr>"

definition exampleSeries :: "chartPoint list" where
  "exampleSeries =
     [\<lparr>xDate = ''2024-01-03'', yScore = 700, invitations = 1000\<rparr>,
      \<lparr>xDate = ''2024-01-17'', yScore = 690, invitations = 1000\<rparr>,
      \<lparr>xDate = ''2024-01-31'', yScore = 680, invitations = 1000\<rparr>]"

text \<open>The series of the specification's eligibility example, and a series of one round.\<close>

definition specSeries :: "chartPoint list" where
  "specSeries =
     [\<lparr>xDate = ''2024-01-01'', yScore = 480, invitations = 1000\<rparr>,
      \<lparr>xDate = ''2024-06-01'', yScore = 460, invitations = 1000\<rparr>,
      \<lparr>xDate = ''2025-01-01'', yScore = 450, invitations = 1000\<rparr>]"

definition singleRound :: "chartPoint list" where
  "singleRound = [\<lparr>xDate = ''2024-01-03'', yScore = 700, invitations = 1000\<rparr>]"

text \<open>Three rounds of one category on the same day.\<close>

definition sameDayRounds :: "chartPoint list" where
  "sameDayRounds =
     [\<lparr>xDate = ''2024-01-03'', yScore = 500, invitations = 1000\<rparr>,
      \<lparr>xDate = ''2024-01-03'', yScore = 490, invitations = 1000\<rparr>,
      \<lparr>xDate = ''2024-01-03'', yScore = 480, invitations = 1000\<rparr>]"

text \<open>
  Three regression points on 2024-01-06 (epoch milliseconds 1704499200000) with the
  cutoffs 500, 490 and 480, and two points one second apart.
\<close>

definition sameInstantPoints :: "(f64 \<times> f64) list" where
  "sameInstantPoints =
     [((1704499200000, 0), (500, 0)), ((1704499200000, 0), (490, 0)),
      ((1704499200000, 0), (480, 0))]"

definition secondApartPoints :: "(f64 \<times> f64) list" where
  "secondApartPoints =
     [((1704499200000, 0), (500, 0)), ((1704499201000, 0), (490, 0))]"

text \<open>The same points as pairs of real numbers.\<close>

definition realPoints :: "(f64 \<times> f64) list \<Rightarrow> pt list" where
  "realPoints pts = map (\<lambda>p. (toReal (fst p), toReal (snd p))) pts"

text \<open>A snapshot with 45 candidates in the range 491-500 and none elsewhere.\<close>

definition fortyFiveSnapshot :: snapshot where
  "fortyFiveSnapshot =
     \<lparr>snapDate = ''2025-01-08'', snapRanges = [''491-500'' \<mapsto> 45], snapTotal = 45\<rparr>"

section \<open>What the specification asks of a regression projection\<close>

text \<open>The first and the last observed instant of a series.\<close>

definition firstObserved :: "dateApi \<Rightarrow> chartPoint list \<Rightarrow> int" where
  "firstObserved D filtered = getTime D (xDate (sortByDate D filtered ! 0))"

definition lastObserved :: "dateApi \<Rightarrow> chartPoint list \<Rightarrow> int" where
  "lastObserved D filtered = getTime D (xDate (last (sortByDate D filtered)))"

text \<open>
  The point emitted for the instant \<open>t\<close>: its date, the fitted value rounded and floored
  at zero, and the tag, a forecast exactly when \<open>t\<close> is after the last observed instant.
\<close>

definition emittedPoint ::
  "dateApi \<Rightarrow> regression \<Rightarrow> string \<Rightarrow> string \<Rightarrow> int \<Rightarrow> real \<Rightarrow> projPoint" where
  "emittedPoint D reg dsLabel suffix lastT t =
     \<lparr>projX = toISODate D t,
      projY = max 0 (Math_round (evalModel reg t)),
      projRoundType =
        dsLabel @ '' ('' @ suffix
          @ (if t > real_of_int lastT then '' forecast'' else '' trend'') @ '')'',
      projMethod = suffix\<rparr>"

section \<open>What the specification asks of the crossing searches\<close>

text \<open>
  The instants a weekly search over three years visits: the last observed instant and
  the 156 instants that follow it at steps of seven days.
\<close>

definition weeklyInstants :: "int \<Rightarrow> int list" where
  "weeklyInstants lastT = map (\<lambda>k. lastT + int k * (7 * 24 * 60 * 60 * 1000)) [0..<157]"

section \<open>Regression library: proofs\<close>

text \<open>
  In exact arithmetic \<open>linearRegression\<close> gives no model exactly when there are fewer
  than two points or the determinant of the normal equations is below \<open>1e-10\<close> in
  absolute value, and otherwise the line of least squares.
\<close>

lemma ssr_expand:
  "sumSquaredResiduals pts a b =
     (\<Sum>p\<leftarrow>pts. snd p * snd p) - 2 * a * (\<Sum>p\<leftarrow>pts. fst p * snd p) - 2 * b * (\<Sum>p\<leftarrow>pts. snd p)
     + a * a * (\<Sum>p\<leftarrow>pts. fst p * fst p) + 2 * a * b * (\<Sum>p\<leftarrow>pts. fst p)
     + real (length pts) * (b * b)"
  unfolding sumSquaredResiduals_def
  by (induction pts) (simp_all add: algebra_simps power2_eq_square)

lemma centred_squares:
  "(\<Sum>p\<leftarrow>pts. (k * fst p - s) ^ 2) =
     k * k * (\<Sum>p\<leftarrow>pts. fst p * fst p) - 2 * k * s * (\<Sum>p\<leftarrow>pts. fst p)
     + real (length pts) * (s * s)"
  by (induction pts) (simp_all add: algebra_simps power2_eq_square)

lemma normalDet_nonneg: "0 \<le> normalDet pts"
proof (cases "pts = []")
  case True
  then show ?thesis by (simp add: normalDet_def)
next
  case False
  define n where "n = real (length pts)"
  define sx where "sx = (\<Sum>p\<leftarrow>pts. fst p)"
  define sxx where "sxx = (\<Sum>p\<leftarrow>pts. fst p * fst p)"
  have npos: "0 < n" using False by (simp add: n_def)
  have "0 \<le> (\<Sum>p\<leftarrow>pts. (n * fst p - sx) ^ 2)"
    by (rule sum_list_nonneg) auto
  also have "\<dots> = n * n * sxx - 2 * n * sx * sx + n * (sx * sx)"
    by (simp add: centred_squares n_def sx_def sxx_def)
  also have "\<dots> = n * (n * sxx - sx * sx)"
    by (simp add: algebra_simps)
  finally have "0 \<le> n * (n * sxx - sx * sx)" .
  with npos have "0 \<le> n * sxx - sx * sx"
    by (simp add: zero_le_mult_iff)
  then show ?thesis by (simp add: normalDet_def n_def sx_def sxx_def)
qed

lemma least_squares_algebra:
  fixes n sx sy sxy sxx syy d sl ic a b :: real
  assumes npos: "0 < n" and dpos: "0 < d" and d: "d = n * sxx - sx * sx"
    and sl: "sl = (n * sxy - sx * sy) / d" and ic: "ic = (sy - sl * sx) / n"
  shows "syy - 2 * sl * sxy - 2 * ic * sy + sl * sl * sxx + 2 * sl * ic * sx + n * (ic * ic)
       \<le> syy - 2 * a * sxy - 2 * b * sy + a * a * sxx + 2 * a * b * sx + n * (b * b)"
proof -
  have N1: "sy = n * ic + sl * sx"
    using npos by (simp add: ic)
  have "sl * d = n * sxy - sx * sy"
    using dpos by (simp add: sl)
  then have "n * sxy = sl * (n * sxx - sx * sx) + sx * (n * ic + sl * sx)"
    using N1 d by simp
  also have "\<dots> = n * (sl * sxx + ic * sx)"
    by (simp add: algebra_simps)
  finally have N2: "sxy = sl * sxx + ic * sx"
    using npos by simp
  define da where "da = a - sl"
  define db where "db = b - ic"
  have diff: "(syy - 2 * a * sxy - 2 * b * sy + a * a * sxx + 2 * a * b * sx + n * (b * b))
      - (syy - 2 * sl * sxy - 2 * ic * sy + sl * sl * sxx + 2 * sl * ic * sx + n * (ic * ic))
      = da * da * sxx + 2 * da * db * sx + n * (db * db)"
    unfolding N1 N2 da_def db_def by (simp add: algebra_simps)
  have "n * (da * da * sxx + 2 * da * db * sx + n * (db * db))
      = (n * db + sx * da) ^ 2 + da ^ 2 * d"
    unfolding d by (simp add: algebra_simps power2_eq_square)
  moreover have "0 \<le> (n * db + sx * da) ^ 2 + da ^ 2 * d"
    using dpos by (intro add_nonneg_nonneg mult_nonneg_nonneg) auto
  ultimately have "0 \<le> n * (da * da * sxx + 2 * da * db * sx + n * (db * db))"
    by simp
  with npos have "0 \<le> da * da * sxx + 2 * da * db * sx + n * (db * db)"
    by (simp add: zero_le_mult_iff)
  with diff show ?thesis by linarith
qed

lemma linearRegression_None_iff:
  "linearRegression pts = None \<longleftrightarrow> length pts < 2 \<or> \<bar>normalDet pts\<bar> < 1 / 10 ^ 10"
  by (simp add: linearRegression_def normalDet_def Let_def)

lemma linearRegression_Some:
  assumes "linearRegression pts = Some m"
  shows "m = LinearModel
           ((real (length pts) * (\<Sum>p\<leftarrow>pts. fst p * snd p) - (\<Sum>p\<leftarrow>pts. fst p) * (\<Sum>p\<leftarrow>pts. snd p))
              / normalDet pts)
           (((\<Sum>p\<leftarrow>pts. snd p)
              - (real (length pts) * (\<Sum>p\<leftarrow>pts. fst p * snd p) - (\<Sum>p\<leftarrow>pts. fst p) * (\<Sum>p\<leftarrow>pts. snd p))
                  / normalDet pts * (\<Sum>p\<leftarrow>pts. fst p))
              / real (length pts))"
  using assms by (simp add: linearRegression_def normalDet_def Let_def split: if_splits)

lemma linearRegression_least_squares:
  assumes "linearRegression pts = Some (LinearModel sl ic)"
  shows "sumSquaredResiduals pts sl ic \<le> sumSquaredResiduals pts a b"
proof -
  from assms have nn: "\<not> (length pts < 2 \<or> \<bar>normalDet pts\<bar> < 1 / 10 ^ 10)"
    using linearRegression_None_iff [of pts] by simp
  then have npos: "0 < real (length pts)" by (cases pts) auto
  from nn have "normalDet pts \<noteq> 0" by auto
  with normalDet_nonneg [of pts] have dpos: "0 < normalDet pts" by simp
  from linearRegression_Some [OF assms]
  have sl: "sl = (real (length pts) * (\<Sum>p\<leftarrow>pts. fst p * snd p)
                   - (\<Sum>p\<leftarrow>pts. fst p) * (\<Sum>p\<leftarrow>pts. snd p)) / normalDet pts"
    and ic: "ic = ((\<Sum>p\<leftarrow>pts. snd p) - sl * (\<Sum>p\<leftarrow>pts. fst p)) / real (length pts)"
    by simp_all
  show ?thesis
    unfolding ssr_expand
    by (rule least_squares_algebra [OF npos dpos _ sl ic]) (simp add: normalDet_def)
qed

text \<open>
  C6.  On fewer than four points \<open>polyRegression\<close> returns exactly what
  \<open>linearRegression\<close> returns on the same points (the same model, or no model).
\<close>

theorem polyRegression_short_is_linear:
  "length pts < 4 \<Longrightarrow> polyRegression pts = linearRegression pts"
  by (simp add: polyRegression_def)

theorem polyRegression_short_is_linear_witness:
  "length [(0, 1), (1, 3), (2, 6 :: real)] < 4 \<and>
   polyRegression [(0, 1), (1, 3), (2, 6)] = Some (LinearModel (5 / 2) (5 / 6)) \<and>
   linearRegression [(0, 1), (1, 3), (2, 6)] = Some (LinearModel (5 / 2) (5 / 6))"
proof -
  have l: "length [(0, 1), (1, 3), (2, 6 :: real)] < 4" by simp
  have "linearRegression [(0, 1), (1, 3), (2, 6)] = Some (LinearModel (5 / 2) (5 / 6))"
    by (simp add: linearRegression_def)
  then show ?thesis
    using polyRegression_short_is_linear [OF l] by simp
qed

section \<open>Distribution index: proofs\<close>

















section \<open>Crossing searches: proofs\<close>

lemma upt_Suc_shift: "[0..<Suc n] = 0 # map Suc [0..<n]"
  by (simp add: upt_conv_Cons map_Suc_upt del: upt_Suc)

lemma poolSearch_steps:
  assumes "\<forall>k<n. real_of_int (t + int k * 604800000) \<le> maxT"
    and "\<not> real_of_int (t + int n * 604800000) \<le> maxT"
  shows "poolSearch reg maxT t =
           find (\<lambda>u. evalModel reg (real_of_int u) \<le> 1) (map (\<lambda>k. t + int k * 604800000) [0..<n])"
  using assms
proof (induction n arbitrary: t)
  case 0
  then show ?case by (subst poolSearch.simps) simp
next
  case (Suc n)
  from Suc.prems(1) have t: "real_of_int t \<le> maxT" by force
  have a: "\<forall>k<n. real_of_int (t + 604800000 + int k * 604800000) \<le> maxT"
  proof (intro allI impI)
    fix k assume "k < n"
    then have "Suc k < Suc n" by simp
    with Suc.prems(1) have "real_of_int (t + int (Suc k) * 604800000) \<le> maxT"
      by blast
    then show "real_of_int (t + 604800000 + int k * 604800000) \<le> maxT"
      by (simp add: algebra_simps)
  qed
  have b: "\<not> real_of_int (t + 604800000 + int n * 604800000) \<le> maxT"
    using Suc.prems(2) by (simp add: algebra_simps)
  have shift: "map (\<lambda>k. t + int k * 604800000) [0..<Suc n]
      = t # map (\<lambda>k. t + 604800000 + int k * 604800000) [0..<n]"
    unfolding upt_Suc_shift by (simp add: comp_def algebra_simps)
  have step: "poolSearch reg maxT t =
      (if evalModel reg (real_of_int t) \<le> 1 then Some t
       else poolSearch reg maxT (t + 604800000))"
    by (subst poolSearch.simps) (simp add: t Let_def)
  show ?case
    unfolding shift step Suc.IH [OF a b] by simp
qed

lemma trendSearch_steps:
  assumes "\<forall>k<n. real_of_int (t + int k * 604800000) \<le> maxT"
    and "\<not> real_of_int (t + int n * 604800000) \<le> maxT"
  shows "trendSearch reg score maxT t =
           find (\<lambda>u. evalModel reg (real_of_int u) \<le> real_of_int score) (map (\<lambda>k. t + int k * 604800000) [0..<n])"
  using assms
proof (induction n arbitrary: t)
  case 0
  then show ?case by (subst trendSearch.simps) simp
next
  case (Suc n)
  from Suc.prems(1) have t: "real_of_int t \<le> maxT" by force
  have a: "\<forall>k<n. real_of_int (t + 604800000 + int k * 604800000) \<le> maxT"
  proof (intro allI impI)
    fix k assume "k < n"
    then have "Suc k < Suc n" by simp
    with Suc.prems(1) have "real_of_int (t + int (Suc k) * 604800000) \<le> maxT"
      by blast
    then show "real_of_int (t + 604800000 + int k * 604800000) \<le> maxT"
      by (simp add: algebra_simps)
  qed
  have b: "\<not> real_of_int (t + 604800000 + int n * 604800000) \<le> maxT"
    using Suc.prems(2) by (simp add: algebra_simps)
  have shift: "map (\<lambda>k. t + int k * 604800000) [0..<Suc n]
      = t # map (\<lambda>k. t + 604800000 + int k * 604800000) [0..<n]"
    unfolding upt_Suc_shift by (simp add: comp_def algebra_simps)
  have step: "trendSearch reg score maxT t =
      (if evalModel reg (real_of_int t) \<le> real_of_int score then Some t
       else trendSearch reg score maxT (t + 604800000))"
    by (subst trendSearch.simps) (simp add: t Let_def)
  show ?case
    unfolding shift step Suc.IH [OF a b] by simp
qed


lemma horizon_157:
  "(\<forall>k<157. real_of_int (t + int k * 604800000) \<le> real_of_int t + 3 * 365.25 * 24 * 60 * 60 * 1000) \<and>
   \<not> real_of_int (t + int 157 * 604800000) \<le> real_of_int t + 3 * 365.25 * 24 * 60 * 60 * 1000"
proof (intro conjI allI impI)
  fix k :: nat assume "k < 157"
  then have "int k \<le> 156" by simp
  then have "real_of_int (int k) \<le> 156" by linarith
  then show "real_of_int (t + int k * 604800000) \<le> real_of_int t + 3 * 365.25 * 24 * 60 * 60 * 1000"
    by simp
qed simp

lemma weeklyInstants_alt: "weeklyInstants t = map (\<lambda>k. t + int k * 604800000) [0..<157]"
  by (simp add: weeklyInstants_def del: upt_rec_numeral)

lemma poolCrossingFrom_find:
  "poolCrossingFrom reg lastT = find (\<lambda>u. evalModel reg (real_of_int u) \<le> 1) (weeklyInstants lastT)"
proof -
  from horizon_157 [of lastT]
  have a: "\<forall>k<157. real_of_int (lastT + int k * 604800000) \<le> real_of_int lastT + 3 * 365.25 * 24 * 60 * 60 * 1000"
    and b: "\<not> real_of_int (lastT + int 157 * 604800000) \<le> real_of_int lastT + 3 * 365.25 * 24 * 60 * 60 * 1000"
    by blast+
  show ?thesis
    unfolding poolCrossingFrom_def Let_def weeklyInstants_alt
    by (rule poolSearch_steps [OF a b])
qed

lemma trendCrossingFrom_find:
  "trendCrossingFrom reg score lastT =
     find (\<lambda>u. evalModel reg (real_of_int u) \<le> real_of_int score) (weeklyInstants lastT)"
proof -
  from horizon_157 [of lastT]
  have a: "\<forall>k<157. real_of_int (lastT + int k * 604800000) \<le> real_of_int lastT + 3 * 365.25 * 24 * 60 * 60 * 1000"
    and b: "\<not> real_of_int (lastT + int 157 * 604800000) \<le> real_of_int lastT + 3 * 365.25 * 24 * 60 * 60 * 1000"
    by blast+
  show ?thesis
    unfolding trendCrossingFrom_def Let_def weeklyInstants_alt
    by (rule trendSearch_steps [OF a b])
qed

lemma week_bound_iff:
  "(real_of_int (int k * 604800000) \<le> 94672800000) = (k < 157)"
proof
  assume "real_of_int (int k * 604800000) \<le> 94672800000"
  then have "int k * 604800000 \<le> 94672800000" by linarith
  then show "k < 157" by linarith
next
  assume "k < 157"
  then have "int k * 604800000 \<le> 94672800000" by linarith
  then show "real_of_int (int k * 604800000) \<le> 94672800000" by linarith
qed

lemma weeklyInstants_set:
  "set (weeklyInstants lastT) =
     {u. \<exists>k::nat. u = lastT + int k * (7 * 24 * 60 * 60 * 1000)
          \<and> real_of_int (u - lastT) \<le> 3 * 365.25 * 24 * 60 * 60 * 1000}"
proof -
  have "set (weeklyInstants lastT) = (\<lambda>k. lastT + int k * 604800000) ` {0..<157}"
    unfolding weeklyInstants_alt by (simp only: set_map set_upt)
  also have "\<dots> = {u. \<exists>k::nat. u = lastT + int k * 604800000 \<and> k < 157}"
    by (auto simp only: image_iff atLeastLessThan_iff)
  also have "\<dots> = {u. \<exists>k::nat. u = lastT + int k * 604800000
                       \<and> real_of_int (int k * 604800000) \<le> 94672800000}"
    by (simp only: week_bound_iff)
  also have "\<dots> = {u. \<exists>k::nat. u = lastT + int k * (7 * 24 * 60 * 60 * 1000)
          \<and> real_of_int (u - lastT) \<le> 3 * 365.25 * 24 * 60 * 60 * 1000}"
  proof -
    have "(u = lastT + int k * 604800000 \<and> real_of_int (int k * 604800000) \<le> 94672800000)
      = (u = lastT + int k * (7 * 24 * 60 * 60 * 1000)
          \<and> real_of_int (u - lastT) \<le> 3 * 365.25 * 24 * 60 * 60 * 1000)" for u and k :: nat
      by auto
    then show ?thesis by (simp only:)
  qed
  finally show ?thesis .
qed

lemma weeklyInstants_length: "length (weeklyInstants lastT) = 157"
  by (simp add: weeklyInstants_def del: upt_rec_numeral)

lemma trendProjection_weekly:
  "(case trendProjection D pg s sc of
      None \<Rightarrow> True
    | Some (t, starred) \<Rightarrow>
        \<not> starred \<and>
        (\<exists>reg. find (\<lambda>u. evalModel reg (real_of_int u) \<le> real_of_int sc)
                 (weeklyInstants (getTime D (xDate (last s)))) = Some t))"
  by (auto simp: trendProjection_def Let_def trendCrossingFrom_find split: option.splits)

lemma getPoolAwareProjection_weekly:
  "(case getPoolAwareProjection D pg s sc of
      None \<Rightarrow> True
    | Some (t, starred) \<Rightarrow>
        starred \<and>
        (\<exists>reg. find (\<lambda>u. evalModel reg (real_of_int u) \<le> 1)
                 (weeklyInstants (getTime D (snapDate (last (distributionSnapshots pg))))) = Some t))"
  by (auto simp: getPoolAwareProjection_def Let_def poolCrossingFrom_find split: option.splits)

text \<open>
  C4.  The pool-aware search and the plain trend search both visit the same instants: the
  last observed instant and then steps of exactly seven days, as long as the instant is
  at most \<open>3 * 365.25\<close> days after the last observed one.  These are 157 instants, so
  each search evaluates the fitted model at most 157 times.  Each returns the first of
  these instants at which the fitted value meets its condition (ratio at most 1, score at
  most the target), or nothing.  The projection mode only selects the fitted model: in
  every mode a result of either search is such a first instant.
\<close>

theorem crossing_searches_weekly_three_years:
  "poolCrossingFrom reg lastT =
     find (\<lambda>u. evalModel reg (real_of_int u) \<le> 1) (weeklyInstants lastT) \<and>
   trendCrossingFrom reg score lastT =
     find (\<lambda>u. evalModel reg (real_of_int u) \<le> real_of_int score) (weeklyInstants lastT) \<and>
   length (weeklyInstants lastT) = 157 \<and>
   set (weeklyInstants lastT) =
     {u. \<exists>k::nat. u = lastT + int k * (7 * 24 * 60 * 60 * 1000)
          \<and> real_of_int (u - lastT) \<le> 3 * 365.25 * 24 * 60 * 60 * 1000} \<and>
   (case getPoolAwareProjection D pg s sc of
      None \<Rightarrow> True
    | Some (t, starred) \<Rightarrow>
        starred \<and>
        (\<exists>r. find (\<lambda>u. evalModel r (real_of_int u) \<le> 1)
                 (weeklyInstants (getTime D (snapDate (last (distributionSnapshots pg))))) = Some t)) \<and>
   (case trendProjection D pg s sc of
      None \<Rightarrow> True
    | Some (t, starred) \<Rightarrow>
        \<not> starred \<and>
        (\<exists>r. find (\<lambda>u. evalModel r (real_of_int u) \<le> real_of_int sc)
                 (weeklyInstants (getTime D (xDate (last s)))) = Some t))"
  by (intro conjI poolCrossingFrom_find trendCrossingFrom_find weeklyInstants_length
      weeklyInstants_set getPoolAwareProjection_weekly trendProjection_weekly)

section \<open>Building the snapshots: proofs\<close>

lemma keepUnseen_subset: "set (keepUnseen xs seen) \<subseteq> set xs"
  by (induction xs arbitrary: seen) (auto simp: Let_def)

lemma keepUnseen_keys:
  "set (map snapshotKey (keepUnseen xs seen)) = set (map snapshotKey xs) - seen"
  by (induction xs arbitrary: seen) (auto simp: Let_def)

lemma keepUnseen_distinct: "distinct (map snapshotKey (keepUnseen xs seen))"
proof (induction xs arbitrary: seen)
  case Nil
  then show ?case by simp
next
  case (Cons rd rest)
  have "snapshotKey rd \<notin> set (map snapshotKey (keepUnseen rest (insert (snapshotKey rd) seen)))"
    unfolding keepUnseen_keys by simp
  with Cons show ?case by (simp add: Let_def)
qed

lemma keepUnseen_first:
  "p \<in> set (keepUnseen xs seen) \<Longrightarrow>
   snapshotKey p \<notin> seen \<and> find (\<lambda>q. snapshotKey q = snapshotKey p) xs = Some p"
proof (induction xs arbitrary: seen)
  case Nil
  then show ?case by simp
next
  case (Cons rd rest)
  show ?case
  proof (cases "snapshotKey rd \<in> seen")
    case True
    with Cons.prems have "p \<in> set (keepUnseen rest seen)" by (simp add: Let_def)
    from Cons.IH [OF this] True show ?thesis by auto
  next
    case False
    with Cons.prems consider "p = rd" | "p \<in> set (keepUnseen rest (insert (snapshotKey rd) seen))"
      by (auto simp: Let_def)
    then show ?thesis
    proof cases
      case 1
      with False show ?thesis by simp
    next
      case 2
      from Cons.IH [OF this] show ?thesis by auto
    qed
  qed
qed

lemma keepUnseen_sorted:
  "sorted (map f xs) \<Longrightarrow> sorted (map f (keepUnseen xs seen))"
proof (induction xs arbitrary: seen)
  case Nil
  then show ?case by simp
next
  case (Cons rd rest)
  then show ?case
    using keepUnseen_subset [of rest] by (fastforce simp: Let_def)
qed

lemma distRounds_sorted: "sorted (map (\<lambda>rd. getTime D (roundDate (fst rd))) (distRounds D rounds))"
  by (simp add: distRounds_def)

lemma snapDate_toSnapshot: "snapDate (toSnapshot rd) = roundDate (fst rd)"
  by (cases rd) (simp add: toSnapshot_def)

lemma distSnapshots_sorted:
  "sorted (map (\<lambda>s. getTime D (snapDate s)) (distSnapshots D rounds))"
  using keepUnseen_sorted [OF distRounds_sorted, of D rounds "{}"]
  by (simp add: distSnapshots_def comp_def snapDate_toSnapshot)

lemma utcGetTime_2025:
  "utcGetTime ''2025-02-05'' = 1738713600000"
  "utcGetTime ''2025-01-22'' = 1737504000000"
  by (simp_all add: utcGetTime_def digitsValue_def daysFromCivil_def)

lemma laterRoundFirst_dist:
  "distRounds utcDates laterRoundFirst =
     [(exampleRound 1 ''2025-01-22'' 200 ''2025-01-20'', exampleDistribution 200 ''2025-01-20''),
      (exampleRound 2 ''2025-02-05'' 100 ''2025-01-20'', exampleDistribution 100 ''2025-01-20'')]"
  by (simp add: distRounds_def withDistribution_def laterRoundFirst_def
      exampleRound_def exampleDistribution_def utcDates_def utcGetTime_2025)

lemma laterRoundFirst_kept:
  "keepUnseen (distRounds utcDates laterRoundFirst) {} =
     [(exampleRound 1 ''2025-01-22'' 200 ''2025-01-20'', exampleDistribution 200 ''2025-01-20'')]"
  unfolding laterRoundFirst_dist
  by (simp add: snapshotKey_def exampleDistribution_def Let_def)

lemma distRounds_stable:
  "filter (\<lambda>rd. getTime D (roundDate (fst rd)) = t) (distRounds D rounds)
     = filter (\<lambda>rd. getTime D (roundDate (fst rd)) = t) (withDistribution rounds)"
  unfolding distRounds_def by (rule sort_key_stable)

text \<open>
  C8 (as amended).  The snapshots are built from the rounds that carry a distribution with
  a positive total, taken in ascending order of the round's date, rounds of the same
  date in input order.  Of these, exactly the first round of each distinct key is kept,
  the key being \<open>asOfDate\<close>, or the round's date when \<open>asOfDate\<close> is empty; later
  rounds with a key already seen are dropped, not merged.  The result is sorted
  ascending by the round's date.
\<close>

theorem distSnapshots_first_per_key_in_date_order:
  "distSnapshots D rounds = map toSnapshot (keepUnseen (distRounds D rounds) {}) \<and>
   sorted (map (\<lambda>rd. getTime D (roundDate (fst rd))) (distRounds D rounds)) \<and>
   (\<forall>t. filter (\<lambda>rd. getTime D (roundDate (fst rd)) = t) (distRounds D rounds)
        = filter (\<lambda>rd. getTime D (roundDate (fst rd)) = t) (withDistribution rounds)) \<and>
   set (keepUnseen (distRounds D rounds) {}) \<subseteq> set (distRounds D rounds) \<and>
   distinct (map snapshotKey (keepUnseen (distRounds D rounds) {})) \<and>
   set (map snapshotKey (keepUnseen (distRounds D rounds) {}))
     = set (map snapshotKey (distRounds D rounds)) \<and>
   (\<forall>p\<in>set (keepUnseen (distRounds D rounds) {}).
      find (\<lambda>q. snapshotKey q = snapshotKey p) (distRounds D rounds) = Some p) \<and>
   sorted (map (\<lambda>s. getTime D (snapDate s)) (distSnapshots D rounds))"
proof (intro conjI allI ballI)
  show "distSnapshots D rounds = map toSnapshot (keepUnseen (distRounds D rounds) {})"
    by (simp add: distSnapshots_def)
  show "sorted (map (\<lambda>rd. getTime D (roundDate (fst rd))) (distRounds D rounds))"
    by (rule distRounds_sorted)
  show "set (keepUnseen (distRounds D rounds) {}) \<subseteq> set (distRounds D rounds)"
    by (rule keepUnseen_subset)
  show "distinct (map snapshotKey (keepUnseen (distRounds D rounds) {}))"
    by (rule keepUnseen_distinct)
  show "set (map snapshotKey (keepUnseen (distRounds D rounds) {}))
     = set (map snapshotKey (distRounds D rounds))"
    by (simp only: keepUnseen_keys Diff_empty)
  show "sorted (map (\<lambda>s. getTime D (snapDate s)) (distSnapshots D rounds))"
    by (rule distSnapshots_sorted)
next
  fix t
  show "filter (\<lambda>rd. getTime D (roundDate (fst rd)) = t) (distRounds D rounds)
        = filter (\<lambda>rd. getTime D (roundDate (fst rd)) = t) (withDistribution rounds)"
    by (rule distRounds_stable)
next
  fix p
  assume "p \<in> set (keepUnseen (distRounds D rounds) {})"
  from keepUnseen_first [OF this]
  show "find (\<lambda>q. snapshotKey q = snapshotKey p) (distRounds D rounds) = Some p" by simp
qed

lemma utcGetTime_2025_01_08: "utcGetTime ''2025-01-08'' = 1736294400000"
  by (simp add: utcGetTime_def digitsValue_def daysFromCivil_def)

lemma threeRounds_dist:
  "distRounds utcDates threeRounds =
     [(exampleRound 1 ''2025-01-08'' 300 ''2025-01-06'', exampleDistribution 300 ''2025-01-06''),
      (exampleRound 2 ''2025-01-22'' 200 ''2025-01-20'', exampleDistribution 200 ''2025-01-20''),
      (exampleRound 3 ''2025-02-05'' 100 ''2025-01-20'', exampleDistribution 100 ''2025-01-20'')]"
  by (simp add: distRounds_def withDistribution_def threeRounds_def
      exampleRound_def exampleDistribution_def utcDates_def utcGetTime_2025 utcGetTime_2025_01_08)

lemma threeRounds_kept:
  "keepUnseen (distRounds utcDates threeRounds) {} =
     [(exampleRound 1 ''2025-01-08'' 300 ''2025-01-06'', exampleDistribution 300 ''2025-01-06''),
      (exampleRound 2 ''2025-01-22'' 200 ''2025-01-20'', exampleDistribution 200 ''2025-01-20'')]"
  unfolding threeRounds_dist
  by (simp add: snapshotKey_def exampleDistribution_def Let_def)

theorem distSnapshots_first_per_key_in_date_order_witness:
  "map snapDate (distSnapshots utcDates threeRounds) = [''2025-01-08'', ''2025-01-22''] \<and>
   find (\<lambda>q. snapshotKey q = ''2025-01-20'') (distRounds utcDates threeRounds)
     = Some (exampleRound 2 ''2025-01-22'' 200 ''2025-01-20'', exampleDistribution 200 ''2025-01-20'') \<and>
   sorted (map (\<lambda>s. getTime utcDates (snapDate s)) (distSnapshots utcDates threeRounds))"
proof -
  note inst = distSnapshots_first_per_key_in_date_order [of utcDates threeRounds]
  have k: "snapshotKey (exampleRound 2 ''2025-01-22'' 200 ''2025-01-20'',
              exampleDistribution 200 ''2025-01-20'') = ''2025-01-20''"
    by (simp add: snapshotKey_def exampleDistribution_def)
  have "(exampleRound 2 ''2025-01-22'' 200 ''2025-01-20'', exampleDistribution 200 ''2025-01-20'')
          \<in> set (keepUnseen (distRounds utcDates threeRounds) {})"
    by (simp add: threeRounds_kept)
  with inst have "find (\<lambda>q. snapshotKey q = ''2025-01-20'') (distRounds utcDates threeRounds)
     = Some (exampleRound 2 ''2025-01-22'' 200 ''2025-01-20'', exampleDistribution 200 ''2025-01-20'')"
    using k by fastforce
  moreover have "map snapDate (distSnapshots utcDates threeRounds) = [''2025-01-08'', ''2025-01-22'']"
    using inst by (simp add: threeRounds_kept snapDate_toSnapshot exampleRound_def)
  moreover have "sorted (map (\<lambda>s. getTime utcDates (snapDate s)) (distSnapshots utcDates threeRounds))"
    using inst by blast
  ultimately show ?thesis by blast
qed

text \<open>
  The claim as stated fails: of two rounds with the same \<open>asOfDate\<close>, the one that comes
  first in the input (dated 2025-02-05, total 100) is dropped, and the one dated
  2025-01-22 (total 200) is kept, because the rounds are sorted by date before the
  duplicates are removed.
\<close>

theorem distSnapshots_keeps_input_first_counterexample:
  "map snapshotKey (withDistribution laterRoundFirst) = [''2025-01-20'', ''2025-01-20''] \<and>
   map (\<lambda>rd. roundDate (fst rd)) (withDistribution laterRoundFirst) = [''2025-02-05'', ''2025-01-22''] \<and>
   map snapDate (distSnapshots utcDates laterRoundFirst) = [''2025-01-22''] \<and>
   map snapTotal (distSnapshots utcDates laterRoundFirst) = [200]"
proof -
  have "map snapshotKey (withDistribution laterRoundFirst) = [''2025-01-20'', ''2025-01-20'']"
    and "map (\<lambda>rd. roundDate (fst rd)) (withDistribution laterRoundFirst) = [''2025-02-05'', ''2025-01-22'']"
    by (simp_all add: withDistribution_def laterRoundFirst_def
        exampleRound_def exampleDistribution_def snapshotKey_def)
  moreover have "map snapDate (distSnapshots utcDates laterRoundFirst) = [''2025-01-22'']"
    and "map snapTotal (distSnapshots utcDates laterRoundFirst) = [200]"
    unfolding distSnapshots_def laterRoundFirst_kept
    by (simp_all add: toSnapshot_def exampleRound_def exampleDistribution_def)
  ultimately show ?thesis by simp
qed

section \<open>Pool-aware fallback and the verdict: proofs\<close>

lemma utcGetTime_2024:
  "utcGetTime ''2024-01-03'' = 1704240000000"
  "utcGetTime ''2024-01-17'' = 1705449600000"
  "utcGetTime ''2024-01-31'' = 1706659200000"
  by (simp_all add: utcGetTime_def digitsValue_def daysFromCivil_def)

lemma exampleSnapshot_counts:
  "countAboveScore (exampleSnapshot day) 700 = 84"
  "countAboveScore (exampleSnapshot day) 690 = 85"
  "countAboveScore (exampleSnapshot day) 680 = 87"
  "countAboveScore (exampleSnapshot day) 672 = 88"
  by (simp_all add: exampleSnapshot_def countAboveScore_def scoreRanges_def bandCount_def
      rangeHi_def parseInt_def isDigit_def Math_round_def)

lemma example_closest:
  "findClosestDist utcDates examplePage 1704240000000 = Some (exampleSnapshot ''2024-01-03'')"
  "findClosestDist utcDates examplePage 1705449600000 = Some (exampleSnapshot ''2024-01-17'')"
  "findClosestDist utcDates examplePage 1706659200000 = Some (exampleSnapshot ''2024-01-31'')"
  by (simp_all add: findClosestDist_def examplePage_def utcDates_def utcGetTime_2024
      exampleSnapshot_def Let_def)

lemma example_ratioSeries: "length (ratioSeries utcDates examplePage exampleSeries) = 3"
  by (simp add: ratioSeries_def exampleSeries_def utcDates_def utcGetTime_2024 Let_def)
     (simp add: utcDates_def [symmetric] example_closest)

lemma example_recent: "recentInvitations exampleSeries = [1000, 1000, 1000]"
  by (simp add: recentInvitations_def exampleSeries_def sliceLast_def)

lemma example_median: "medianInvitations exampleSeries = 1000"
  by (simp add: medianInvitations_def example_recent)

lemma example_latest: "getLatestDistribution examplePage = Some (exampleSnapshot ''2024-01-31'')"
  by (simp add: getLatestDistribution_def examplePage_def)

lemma example_userRatio: "userRatio (exampleSnapshot ''2024-01-31'') exampleSeries 672 = 11 / 125"
  by (simp add: userRatio_def exampleSnapshot_counts example_median)

lemma example_pool: "getPoolAwareProjection utcDates examplePage exampleSeries 672 = None"
  by (simp add: getPoolAwareProjection_def example_ratioSeries example_latest example_recent
      example_userRatio)

lemma example_regression:
  "linearRegression (map (toPt utcDates) exampleSeries)
     = Some (LinearModel (- (1 / 120960000)) (103525 / 7))"
  by (simp add: linearRegression_def toPt_def exampleSeries_def utcDates_def utcGetTime_2024)

lemma example_trend:
  "trendProjection utcDates examplePage exampleSeries 672 = Some (1707868800000, False)"
  by (simp add: trendProjection_def example_regression Let_def)
     (simp add: examplePage_def exampleSeries_def utcDates_def utcGetTime_2024
        trendCrossingFrom_def trendSearch.simps)

lemma example_crossing:
  "getProjectedCrossing utcDates examplePage exampleSeries 672 = Some (1707868800000, False)"
  by (simp add: getProjectedCrossing_def example_pool example_trend)



lemma example_sorted: "sortByDate utcDates exampleSeries = exampleSeries"
  by (simp add: sortByDate_def exampleSeries_def utcDates_def utcGetTime_2024)

lemma example_filterRange:
  "filterRange utcDates examplePage \<lparr>label = ''General'', pointsOf = pts\<rparr> = pts"
  by (simp add: filterRange_def rangeCutoff_def examplePage_def)

lemma example_card:
  "scoreCard utcDates examplePage 672 \<lparr>label = ''General'', pointsOf = exampleSeries\<rparr>
     = Some (Projected 1707868800000 False)"
proof -
  have "scoreCard utcDates examplePage 672 \<lparr>label = ''General'', pointsOf = exampleSeries\<rparr>
     = (if projectionMode examplePage \<noteq> ''off''
        then (case getProjectedCrossing utcDates examplePage exampleSeries 672 of
                Some (t, isPoolAware) \<Rightarrow> Some (Projected t isPoolAware)
              | None \<Rightarrow> None)
        else None)"
    unfolding scoreCard_def example_filterRange example_sorted Let_def
    by (simp add: exampleSeries_def examplePage_def example_crossing [unfolded exampleSeries_def examplePage_def])
  then show ?thesis
    by (simp add: example_crossing) (simp add: examplePage_def)
qed


lemma sortByDate_count:
  "length (filter P (sortByDate D xs)) = length (filter P xs)"
  by (simp add: sortByDate_def filter_sort)

lemma sortByDate_set: "set (sortByDate D xs) = set xs"
  by (simp add: sortByDate_def)

text \<open>
  C1 (as amended).  For a category that is not hidden, \<open>buildScoreResults\<close> gives a
  verdict exactly when the series filtered by the time range has at least two points,
  and then exactly one of the four: eligible when the latest round's cutoff is at most the
  score, with the number of rounds whose cutoff is at most the score; otherwise projected
  when a projection mode is on and the crossing search finds an instant; otherwise the
  date of the last eligible round when there is one; otherwise ineligible.  A series with
  fewer than two points gets no verdict, whatever the projection mode, and a score that
  is not positive gets no cards at all.
\<close>

theorem scoreCard_one_of_four_verdicts:
  assumes "label ds \<notin> hiddenCategories pg"
  shows
    "(length (filterRange D pg ds) < 2 \<longrightarrow> scoreCard D pg score ds = None) \<and>
     (2 \<le> length (filterRange D pg ds) \<longrightarrow>
        (\<exists>v. scoreCard D pg score ds = Some v \<and>
           (case v of
              Eligible n \<Rightarrow>
                yScore (last (sortByDate D (filterRange D pg ds))) \<le> score \<and>
                n = length (filter (\<lambda>d. yScore d \<le> score) (filterRange D pg ds))
            | Projected t starred \<Rightarrow>
                score < yScore (last (sortByDate D (filterRange D pg ds))) \<and>
                projectionMode pg \<noteq> ''off'' \<and>
                getProjectedCrossing D pg (sortByDate D (filterRange D pg ds)) score
                  = Some (t, starred)
            | LastEligible day \<Rightarrow>
                score < yScore (last (sortByDate D (filterRange D pg ds))) \<and>
                (projectionMode pg = ''off'' \<or>
                 getProjectedCrossing D pg (sortByDate D (filterRange D pg ds)) score = None) \<and>
                filter (\<lambda>d. yScore d \<le> score) (sortByDate D (filterRange D pg ds)) \<noteq> [] \<and>
                day = xDate (last (filter (\<lambda>d. yScore d \<le> score)
                                     (sortByDate D (filterRange D pg ds))))
            | Ineligible \<Rightarrow>
                score < yScore (last (sortByDate D (filterRange D pg ds))) \<and>
                (projectionMode pg = ''off'' \<or>
                 getProjectedCrossing D pg (sortByDate D (filterRange D pg ds)) score = None) \<and>
                (\<forall>d\<in>set (filterRange D pg ds). score < yScore d)))) \<and>
     (score \<le> 0 \<longrightarrow> buildScoreResults D pg score dss = [])"
proof (intro conjI impI)
  assume "length (filterRange D pg ds) < 2"
  then show "scoreCard D pg score ds = None"
    using assms by (simp add: scoreCard_def Let_def)
next
  assume "score \<le> 0"
  then show "buildScoreResults D pg score dss = []"
    by (simp add: buildScoreResults_def)
next
  assume two: "2 \<le> length (filterRange D pg ds)"
  define srt where "srt = sortByDate D (filterRange D pg ds)"
  define elig where "elig = filter (\<lambda>d. yScore d \<le> score) srt"
  have card: "scoreCard D pg score ds =
      Some (if yScore (last srt) \<le> score then Eligible (length elig)
            else (case (if projectionMode pg \<noteq> ''off''
                        then getProjectedCrossing D pg srt score else None) of
                    Some (t, isPoolAware) \<Rightarrow> Projected t isPoolAware
                  | None \<Rightarrow> (case (if length elig > 0 then Some (last elig) else None) of
                               Some d \<Rightarrow> LastEligible (xDate d)
                             | None \<Rightarrow> Ineligible)))"
    unfolding srt_def elig_def scoreCard_def Let_def using assms two by simp
  have cnt: "length elig = length (filter (\<lambda>d. yScore d \<le> score) (filterRange D pg ds))"
    by (simp add: elig_def srt_def sortByDate_count)
  have none: "\<forall>d\<in>set (filterRange D pg ds). score < yScore d" if "elig = []"
  proof
    fix d assume "d \<in> set (filterRange D pg ds)"
    then have "d \<in> set srt" by (simp add: srt_def sortByDate_set)
    with that show "score < yScore d"
      by (auto simp: elig_def filter_empty_conv)
  qed
  show "\<exists>v. scoreCard D pg score ds = Some v \<and>
           (case v of
              Eligible n \<Rightarrow>
                yScore (last (sortByDate D (filterRange D pg ds))) \<le> score \<and>
                n = length (filter (\<lambda>d. yScore d \<le> score) (filterRange D pg ds))
            | Projected t starred \<Rightarrow>
                score < yScore (last (sortByDate D (filterRange D pg ds))) \<and>
                projectionMode pg \<noteq> ''off'' \<and>
                getProjectedCrossing D pg (sortByDate D (filterRange D pg ds)) score
                  = Some (t, starred)
            | LastEligible day \<Rightarrow>
                score < yScore (last (sortByDate D (filterRange D pg ds))) \<and>
                (projectionMode pg = ''off'' \<or>
                 getProjectedCrossing D pg (sortByDate D (filterRange D pg ds)) score = None) \<and>
                filter (\<lambda>d. yScore d \<le> score) (sortByDate D (filterRange D pg ds)) \<noteq> [] \<and>
                day = xDate (last (filter (\<lambda>d. yScore d \<le> score)
                                     (sortByDate D (filterRange D pg ds))))
            | Ineligible \<Rightarrow>
                score < yScore (last (sortByDate D (filterRange D pg ds))) \<and>
                (projectionMode pg = ''off'' \<or>
                 getProjectedCrossing D pg (sortByDate D (filterRange D pg ds)) score = None) \<and>
                (\<forall>d\<in>set (filterRange D pg ds). score < yScore d))"
    unfolding srt_def [symmetric] elig_def [symmetric] card
    using cnt none by (auto split: option.splits)
qed


lemma utcGetTime_spec:
  "utcGetTime ''2024-01-01'' = 1704067200000"
  "utcGetTime ''2024-06-01'' = 1717200000000"
  "utcGetTime ''2025-01-01'' = 1735689600000"
  by (simp_all add: utcGetTime_def digitsValue_def daysFromCivil_def)

lemma specSeries_sorted: "sortByDate utcDates specSeries = specSeries"
  by (simp add: sortByDate_def specSeries_def utcDates_def utcGetTime_spec)

lemma specSeries_card:
  "scoreCard utcDates examplePage 470 \<lparr>label = ''General'', pointsOf = specSeries\<rparr>
     = Some (Eligible 2)"
  unfolding scoreCard_def example_filterRange specSeries_sorted Let_def
  by (simp add: specSeries_def examplePage_def)

lemma singleRound_card:
  "scoreCard utcDates examplePage 700 \<lparr>label = ''General'', pointsOf = singleRound\<rparr> = None"
  unfolding scoreCard_def example_filterRange Let_def
  by (simp add: singleRound_def)

theorem scoreCard_one_of_four_verdicts_witness:
  "scoreCard utcDates examplePage 470 \<lparr>label = ''General'', pointsOf = specSeries\<rparr>
     = Some (Eligible 2) \<and>
   length (filter (\<lambda>d. yScore d \<le> 470) specSeries) = 2 \<and>
   scoreCard utcDates examplePage 672 \<lparr>label = ''General'', pointsOf = exampleSeries\<rparr>
     = Some (Projected 1707868800000 False) \<and>
   getProjectedCrossing utcDates examplePage exampleSeries 672 = Some (1707868800000, False) \<and>
   buildScoreResults utcDates examplePage 0 [\<lparr>label = ''General'', pointsOf = specSeries\<rparr>] = []"
proof -
  have hid: "label \<lparr>label = ''General'', pointsOf = pts\<rparr> \<notin> hiddenCategories examplePage" for pts
    by (simp add: examplePage_def)
  have a: "length (filter (\<lambda>d. yScore d \<le> 470) specSeries) = 2"
    using scoreCard_one_of_four_verdicts [OF hid, of utcDates specSeries 470] specSeries_card
    by (auto simp: example_filterRange specSeries_def)
  have b: "getProjectedCrossing utcDates examplePage exampleSeries 672 = Some (1707868800000, False)"
  proof -
    have "2 \<le> length exampleSeries" by (simp add: exampleSeries_def)
    then show ?thesis
      using scoreCard_one_of_four_verdicts [OF hid, of utcDates exampleSeries 672] example_card
      by (auto simp: example_filterRange example_sorted)
  qed
  have c: "buildScoreResults utcDates examplePage 0 [\<lparr>label = ''General'', pointsOf = specSeries\<rparr>] = []"
    using scoreCard_one_of_four_verdicts [OF hid, of utcDates specSeries 0] by simp
  from a b c specSeries_card example_card show ?thesis by simp
qed

text \<open>
  The claim as stated fails for a series of fewer than two points: a category with the
  single round of cutoff 700 gets no verdict for the score 700, although that round
  qualifies, and the list of cards is empty.
\<close>

theorem scoreCard_single_round_counterexample:
  "length singleRound = 1 \<and>
   map yScore singleRound = [700] \<and>
   scoreCard utcDates examplePage 700 \<lparr>label = ''General'', pointsOf = singleRound\<rparr> = None \<and>
   buildScoreResults utcDates examplePage 700 [\<lparr>label = ''General'', pointsOf = singleRound\<rparr>] = []"
  by (simp add: singleRound_card buildScoreResults_def) (simp add: singleRound_def)

section \<open>Regression projection: proofs\<close>

lemma regressionProjection_short:
  "length filtered < 3 \<Longrightarrow> regressionProjection D filtered dsLabel regFn suffix = None"
  by (simp add: regressionProjection_def)

lemma regressionProjection_no_model:
  "regFn (map (toPt D) (sortByDate D filtered)) = None \<Longrightarrow>
   regressionProjection D filtered dsLabel regFn suffix = None"
  by (simp add: regressionProjection_def Let_def)

lemma regressionProjection_points:
  assumes "3 \<le> length filtered"
    and "regFn (map (toPt D) (sortByDate D filtered)) = Some reg"
  shows "regressionProjection D filtered dsLabel regFn suffix =
     Some \<lparr>projLabel = dsLabel @ '' ('' @ suffix @ '')'',
           projData =
             map (emittedPoint D reg dsLabel suffix (lastObserved D filtered))
               (map (\<lambda>i. real_of_int (firstObserved D filtered)
                          + (real_of_int (addMonths D (lastObserved D filtered) 6)
                               - real_of_int (firstObserved D filtered)) * (real i / 40))
                  [0..<41])\<rparr>"
  using assms
  by (simp add: regressionProjection_def Let_def emittedPoint_def firstObserved_def
      lastObserved_def PROJECTION_MONTHS_def comp_def del: upt_rec_numeral upt_Suc)

lemma forty_steps:
  fixes a b :: real
  defines "ts \<equiv> map (\<lambda>i. a + (b - a) * (real i / 40)) [0..<41]"
  shows "length ts = 41" and "ts ! 0 = a" and "ts ! 40 = b"
    and "\<forall>i<40. ts ! Suc i - ts ! i = (b - a) / 40"
proof -
  have nth: "ts ! i = a + (b - a) * (real i / 40)" if "i < 41" for i
    using that unfolding ts_def by (simp del: upt_rec_numeral)
  show "length ts = 41" unfolding ts_def by (simp del: upt_rec_numeral)
  show "ts ! 0 = a" using nth [of 0] by simp
  show "ts ! 40 = b" using nth [of 40] by simp
  show "\<forall>i<40. ts ! Suc i - ts ! i = (b - a) / 40"
  proof (intro allI impI)
    fix i :: nat assume "i < 40"
    then have "ts ! Suc i = a + (b - a) * (real (Suc i) / 40)" and "ts ! i = a + (b - a) * (real i / 40)"
      using nth [of "Suc i"] nth [of i] by simp_all
    then show "ts ! Suc i - ts ! i = (b - a) / 40"
      by (simp add: algebra_simps add_divide_distrib)
  qed
qed

text \<open>
  C7 (as amended).  \<open>regressionProjection\<close>, which \<open>buildDatasets\<close> calls with the
  linear fit in the mode \<open>linear\<close> and with the quadratic fit in the mode \<open>poly\<close>,
  returns nothing for fewer than three points and nothing when the fit gives no model.
  Otherwise it emits 41 points, at the ends of 40 equal steps from the first observed
  instant to six months past the last observed instant; each point is tagged a forecast
  exactly when its instant is after the last observed instant, and its value is
  \<open>max 0 (round (eval t))\<close>.
\<close>

theorem regressionProjection_forty_even_steps:
  "(length filtered < 3 \<longrightarrow> regressionProjection D filtered dsLabel regFn suffix = None) \<and>
   (regFn (map (toPt D) (sortByDate D filtered)) = None \<longrightarrow>
      regressionProjection D filtered dsLabel regFn suffix = None) \<and>
   (3 \<le> length filtered \<longrightarrow> regFn (map (toPt D) (sortByDate D filtered)) = Some reg \<longrightarrow>
      (\<exists>ts. length ts = 41 \<and>
         ts ! 0 = real_of_int (firstObserved D filtered) \<and>
         ts ! 40 = real_of_int (addMonths D (lastObserved D filtered) 6) \<and>
         (\<forall>i<40. ts ! Suc i - ts ! i
            = (real_of_int (addMonths D (lastObserved D filtered) 6)
                - real_of_int (firstObserved D filtered)) / 40) \<and>
         regressionProjection D filtered dsLabel regFn suffix =
           Some \<lparr>projLabel = dsLabel @ '' ('' @ suffix @ '')'',
                 projData = map (emittedPoint D reg dsLabel suffix (lastObserved D filtered)) ts\<rparr>)) \<and>
   (projectionMode pg = ''linear'' \<longrightarrow>
      buildDatasets D pg [ds] =
        Inl (ds\<lparr>pointsOf := filterRange D pg ds\<rparr>) #
          (if length (filterRange D pg ds) < 3 then []
           else (case regressionProjection D (filterRange D pg ds) (label ds)
                        linearRegression ''linear'' of
                   None \<Rightarrow> [] | Some proj \<Rightarrow> [Inr proj]))) \<and>
   (projectionMode pg = ''poly'' \<longrightarrow>
      buildDatasets D pg [ds] =
        Inl (ds\<lparr>pointsOf := filterRange D pg ds\<rparr>) #
          (if length (filterRange D pg ds) < 3 then []
           else (case regressionProjection D (filterRange D pg ds) (label ds)
                        polyRegression ''polynomial'' of
                   None \<Rightarrow> [] | Some proj \<Rightarrow> [Inr proj])))"
proof (intro conjI impI)
  assume "length filtered < 3"
  then show "regressionProjection D filtered dsLabel regFn suffix = None"
    by (rule regressionProjection_short)
next
  assume "regFn (map (toPt D) (sortByDate D filtered)) = None"
  then show "regressionProjection D filtered dsLabel regFn suffix = None"
    by (rule regressionProjection_no_model)
next
  assume a: "3 \<le> length filtered" and b: "regFn (map (toPt D) (sortByDate D filtered)) = Some reg"
  define ts where "ts = map (\<lambda>i. real_of_int (firstObserved D filtered)
                          + (real_of_int (addMonths D (lastObserved D filtered) 6)
                               - real_of_int (firstObserved D filtered)) * (real i / 40))
                  [0..<41]"
  have "length ts = 41 \<and>
         ts ! 0 = real_of_int (firstObserved D filtered) \<and>
         ts ! 40 = real_of_int (addMonths D (lastObserved D filtered) 6) \<and>
         (\<forall>i<40. ts ! Suc i - ts ! i
            = (real_of_int (addMonths D (lastObserved D filtered) 6)
                - real_of_int (firstObserved D filtered)) / 40)"
    unfolding ts_def by (intro conjI forty_steps)
  moreover have "regressionProjection D filtered dsLabel regFn suffix =
           Some \<lparr>projLabel = dsLabel @ '' ('' @ suffix @ '')'',
                 projData = map (emittedPoint D reg dsLabel suffix (lastObserved D filtered)) ts\<rparr>"
    unfolding ts_def using a b by (rule regressionProjection_points)
  ultimately show "\<exists>ts. length ts = 41 \<and>
         ts ! 0 = real_of_int (firstObserved D filtered) \<and>
         ts ! 40 = real_of_int (addMonths D (lastObserved D filtered) 6) \<and>
         (\<forall>i<40. ts ! Suc i - ts ! i
            = (real_of_int (addMonths D (lastObserved D filtered) 6)
                - real_of_int (firstObserved D filtered)) / 40) \<and>
         regressionProjection D filtered dsLabel regFn suffix =
           Some \<lparr>projLabel = dsLabel @ '' ('' @ suffix @ '')'',
                 projData = map (emittedPoint D reg dsLabel suffix (lastObserved D filtered)) ts\<rparr>"
    by blast
next
  assume "projectionMode pg = ''linear''"
  then show "buildDatasets D pg [ds] =
        Inl (ds\<lparr>pointsOf := filterRange D pg ds\<rparr>) #
          (if length (filterRange D pg ds) < 3 then []
           else (case regressionProjection D (filterRange D pg ds) (label ds)
                        linearRegression ''linear'' of
                   None \<Rightarrow> [] | Some proj \<Rightarrow> [Inr proj]))"
    by (simp add: buildDatasets_def Let_def)
next
  assume "projectionMode pg = ''poly''"
  then show "buildDatasets D pg [ds] =
        Inl (ds\<lparr>pointsOf := filterRange D pg ds\<rparr>) #
          (if length (filterRange D pg ds) < 3 then []
           else (case regressionProjection D (filterRange D pg ds) (label ds)
                        polyRegression ''polynomial'' of
                   None \<Rightarrow> [] | Some proj \<Rightarrow> [Inr proj]))"
    by (simp add: buildDatasets_def Let_def)
qed

lemma example_observed:
  "firstObserved utcDates exampleSeries = 1704240000000"
  "lastObserved utcDates exampleSeries = 1706659200000"
  unfolding firstObserved_def lastObserved_def example_sorted
  by (simp_all add: exampleSeries_def utcDates_def utcGetTime_2024)

lemma civil_examples:
  "civilFromDays 19725 = (2024, 1, 3)"
  "civilFromDays 19753 = (2024, 1, 31)"
  "civilFromDays 19935 = (2024, 7, 31)"
  by code_simp+

lemma days_examples:
  "daysFromCivil 2024 7 1 = 19905"
  by code_simp

lemma example_end: "addMonths utcDates 1706659200000 6 = 1722384000000"
  by (simp add: utcDates_def utcAddMonths_def civil_examples days_examples)

lemma iso_examples:
  "utcToISODate (real_of_int 1704240000000) = ''2024-01-03''"
  "utcToISODate (real_of_int 1722384000000) = ''2024-07-31''"
  by (simp_all add: utcToISODate_def civil_examples pad2_def pad4_def digitChar_def)

lemma example_first_point:
  "emittedPoint utcDates (LinearModel (- (1 / 120960000)) (103525 / 7)) ''General'' ''linear''
     1706659200000 (real_of_int 1704240000000)
   = \<lparr>projX = ''2024-01-03'', projY = 700, projRoundType = ''General (linear trend)'',
      projMethod = ''linear''\<rparr>"
  unfolding emittedPoint_def
  by (simp add: utcDates_def iso_examples [simplified] Math_round_def)

lemma example_last_point:
  "emittedPoint utcDates (LinearModel (- (1 / 120960000)) (103525 / 7)) ''General'' ''linear''
     1706659200000 (real_of_int 1722384000000)
   = \<lparr>projX = ''2024-07-31'', projY = 550, projRoundType = ''General (linear forecast)'',
      projMethod = ''linear''\<rparr>"
  unfolding emittedPoint_def
  by (simp add: utcDates_def iso_examples [simplified] Math_round_def)

theorem regressionProjection_forty_even_steps_witness:
  "map_option (\<lambda>p. length (projData p))
     (regressionProjection utcDates exampleSeries ''General'' linearRegression ''linear'') = Some 41 \<and>
   map_option (\<lambda>p. projData p ! 0)
     (regressionProjection utcDates exampleSeries ''General'' linearRegression ''linear'')
     = Some \<lparr>projX = ''2024-01-03'', projY = 700, projRoundType = ''General (linear trend)'',
              projMethod = ''linear''\<rparr> \<and>
   map_option (\<lambda>p. projData p ! 40)
     (regressionProjection utcDates exampleSeries ''General'' linearRegression ''linear'')
     = Some \<lparr>projX = ''2024-07-31'', projY = 550, projRoundType = ''General (linear forecast)'',
              projMethod = ''linear''\<rparr> \<and>
   regressionProjection utcDates singleRound ''General'' linearRegression ''linear'' = None"
proof -
  have three: "3 \<le> length exampleSeries" by (simp add: exampleSeries_def)
  have reg: "linearRegression (map (toPt utcDates) (sortByDate utcDates exampleSeries))
     = Some (LinearModel (- (1 / 120960000)) (103525 / 7))"
    by (simp add: example_sorted example_regression)
  from regressionProjection_forty_even_steps
         [of exampleSeries utcDates "''General''" linearRegression "''linear''"
             "LinearModel (- (1 / 120960000)) (103525 / 7)"]
       three reg
  obtain ts where len: "length ts = 41"
    and t0: "ts ! 0 = real_of_int (firstObserved utcDates exampleSeries)"
    and t40: "ts ! 40 = real_of_int (addMonths utcDates (lastObserved utcDates exampleSeries) 6)"
    and res: "regressionProjection utcDates exampleSeries ''General'' linearRegression ''linear'' =
           Some \<lparr>projLabel = ''General'' @ '' ('' @ ''linear'' @ '')'',
                 projData = map (emittedPoint utcDates (LinearModel (- (1 / 120960000)) (103525 / 7))
                                   ''General'' ''linear'' (lastObserved utcDates exampleSeries)) ts\<rparr>"
    by blast
  have p0: "map (emittedPoint utcDates (LinearModel (- (1 / 120960000)) (103525 / 7))
                  ''General'' ''linear'' 1706659200000) ts ! 0
      = \<lparr>projX = ''2024-01-03'', projY = 700, projRoundType = ''General (linear trend)'',
              projMethod = ''linear''\<rparr>"
    using len t0 example_first_point by (simp add: example_observed)
  have p40: "map (emittedPoint utcDates (LinearModel (- (1 / 120960000)) (103525 / 7))
                  ''General'' ''linear'' 1706659200000) ts ! 40
      = \<lparr>projX = ''2024-07-31'', projY = 550, projRoundType = ''General (linear forecast)'',
              projMethod = ''linear''\<rparr>"
    using len t40 example_last_point by (simp add: example_observed example_end)
  have short: "regressionProjection utcDates singleRound ''General'' linearRegression ''linear'' = None"
    using regressionProjection_forty_even_steps
         [of singleRound utcDates "''General''" linearRegression "''linear''"]
    by (simp add: singleRound_def)
  show ?thesis
    unfolding res using len p0 p40 short by (simp add: example_observed)
qed

text \<open>
  The claim as stated fails for a sorted series of three rounds on the same day: the fit
  has no model, and neither the linear nor the polynomial projection emits any point.
\<close>

theorem regressionProjection_same_day_counterexample:
  "length sameDayRounds = 3 \<and>
   sortByDate utcDates sameDayRounds = sameDayRounds \<and>
   regressionProjection utcDates sameDayRounds ''General'' linearRegression ''linear'' = None \<and>
   regressionProjection utcDates sameDayRounds ''General'' polyRegression ''polynomial'' = None"
proof -
  have s: "sortByDate utcDates sameDayRounds = sameDayRounds"
    by (simp add: sortByDate_def sameDayRounds_def)
  have l: "linearRegression (map (toPt utcDates) sameDayRounds) = None"
    by (simp add: linearRegression_def toPt_def sameDayRounds_def)
  then have p: "polyRegression (map (toPt utcDates) sameDayRounds) = None"
    by (simp add: polyRegression_def sameDayRounds_def)
  show ?thesis
    using s l p by (simp add: regressionProjection_def Let_def) (simp add: sameDayRounds_def)
qed

section \<open>Determinism of the projection datasets: proofs\<close>

lemma buildDatasets_cong:
  assumes "projectionMode pg1 = projectionMode pg2"
    and "\<forall>ds\<in>set dss. filterRange D pg1 ds = filterRange D pg2 ds"
  shows "buildDatasets D pg1 dss = buildDatasets D pg2 dss"
proof -
  have "map (\<lambda>ds.
       let filtered = filterRange D pg1 ds in
       Inl (ds\<lparr>pointsOf := filtered\<rparr>) #
         (if projectionMode pg1 = ''off'' \<or> length filtered < 3 then []
          else
            (if projectionMode pg1 = ''linear'' then
               (case regressionProjection D filtered (label ds) linearRegression ''linear'' of
                  None \<Rightarrow> [] | Some proj \<Rightarrow> [Inr proj])
             else [])
            @ (if projectionMode pg1 = ''moving-avg'' then
                 (case movingAvgProjection D filtered (label ds) of
                    None \<Rightarrow> [] | Some proj \<Rightarrow> [Inr proj])
               else [])
            @ (if projectionMode pg1 = ''poly'' then
                 (case regressionProjection D filtered (label ds) polyRegression ''polynomial'' of
                    None \<Rightarrow> [] | Some proj \<Rightarrow> [Inr proj])
               else []))) dss
    = map (\<lambda>ds.
       let filtered = filterRange D pg2 ds in
       Inl (ds\<lparr>pointsOf := filtered\<rparr>) #
         (if projectionMode pg2 = ''off'' \<or> length filtered < 3 then []
          else
            (if projectionMode pg2 = ''linear'' then
               (case regressionProjection D filtered (label ds) linearRegression ''linear'' of
                  None \<Rightarrow> [] | Some proj \<Rightarrow> [Inr proj])
             else [])
            @ (if projectionMode pg2 = ''moving-avg'' then
                 (case movingAvgProjection D filtered (label ds) of
                    None \<Rightarrow> [] | Some proj \<Rightarrow> [Inr proj])
               else [])
            @ (if projectionMode pg2 = ''poly'' then
                 (case regressionProjection D filtered (label ds) polyRegression ''polynomial'' of
                    None \<Rightarrow> [] | Some proj \<Rightarrow> [Inr proj])
               else []))) dss"
    by (rule map_cong [OF refl]) (simp only: assms)
  then show ?thesis by (simp only: buildDatasets_def)
qed

lemma filterRange_ignores:
  "filterRange D (pg\<lparr>hiddenCategories := h, distributionSnapshots := sn\<rparr>) ds = filterRange D pg ds"
  by (simp add: filterRange_def rangeCutoff_def)

lemma filterRange_clock:
  "timeRange pg \<noteq> ''3y'' \<Longrightarrow> filterRange D (pg\<lparr>clock := c\<rparr>) ds = filterRange D pg ds"
  by (simp add: filterRange_def rangeCutoff_def)

text \<open>
  C9.  The projection datasets are a function of the projection mode and the input series
  alone.  Two runs of \<open>buildDatasets\<close> in any two states of the page (clock, time range,
  hidden categories, pool snapshots) give the same datasets, with the same projected
  points, whenever the mode is the same and every category's filtered series is the same;
  the hidden categories and the snapshots never matter, and the clock matters only
  through the three-year filter of the input series.
\<close>

theorem buildDatasets_deterministic:
  "(projectionMode pgA = projectionMode pgB \<longrightarrow>
      (\<forall>ds\<in>set dss. filterRange D pgA ds = filterRange D pgB ds) \<longrightarrow>
      buildDatasets D pgA dss = buildDatasets D pgB dss) \<and>
   buildDatasets D (pg\<lparr>hiddenCategories := h, distributionSnapshots := sn\<rparr>) dss
     = buildDatasets D pg dss \<and>
   (timeRange pg \<noteq> ''3y'' \<longrightarrow> buildDatasets D (pg\<lparr>clock := c\<rparr>) dss = buildDatasets D pg dss)"
proof (intro conjI impI)
  assume "projectionMode pgA = projectionMode pgB"
    and "\<forall>ds\<in>set dss. filterRange D pgA ds = filterRange D pgB ds"
  then show "buildDatasets D pgA dss = buildDatasets D pgB dss"
    by (rule buildDatasets_cong)
next
  show "buildDatasets D (pg\<lparr>hiddenCategories := h, distributionSnapshots := sn\<rparr>) dss
     = buildDatasets D pg dss"
    by (rule buildDatasets_cong) (simp_all add: filterRange_ignores)
next
  assume "timeRange pg \<noteq> ''3y''"
  then show "buildDatasets D (pg\<lparr>clock := c\<rparr>) dss = buildDatasets D pg dss"
    by (intro buildDatasets_cong) (simp_all add: filterRange_clock)
qed

lemma three_years_before: "utcYearsBefore 1706745600000 3 = 1612137600000"
  by code_simp

theorem buildDatasets_deterministic_witness:
  "buildDatasets utcDates (examplePage\<lparr>timeRange := ''3y''\<rparr>)
     [\<lparr>label = ''General'', pointsOf = exampleSeries\<rparr>]
   = buildDatasets utcDates examplePage [\<lparr>label = ''General'', pointsOf = exampleSeries\<rparr>] \<and>
   buildDatasets utcDates (examplePage\<lparr>clock := 0\<rparr>)
     [\<lparr>label = ''General'', pointsOf = exampleSeries\<rparr>]
   = buildDatasets utcDates examplePage [\<lparr>label = ''General'', pointsOf = exampleSeries\<rparr>] \<and>
   filterRange utcDates (examplePage\<lparr>timeRange := ''3y''\<rparr>)
     \<lparr>label = ''General'', pointsOf = exampleSeries\<rparr> = exampleSeries"
proof -
  have f3: "filterRange utcDates (examplePage\<lparr>timeRange := ''3y''\<rparr>)
     \<lparr>label = ''General'', pointsOf = exampleSeries\<rparr> = exampleSeries"
    by (simp add: filterRange_def rangeCutoff_def examplePage_def utcDates_def three_years_before
        exampleSeries_def utcGetTime_2024)
  have f: "filterRange utcDates examplePage \<lparr>label = ''General'', pointsOf = exampleSeries\<rparr>
      = exampleSeries"
    by (rule example_filterRange)
  have a: "buildDatasets utcDates (examplePage\<lparr>timeRange := ''3y''\<rparr>)
     [\<lparr>label = ''General'', pointsOf = exampleSeries\<rparr>]
   = buildDatasets utcDates examplePage [\<lparr>label = ''General'', pointsOf = exampleSeries\<rparr>]"
    using buildDatasets_deterministic
            [where pgA = "examplePage\<lparr>timeRange := ''3y''\<rparr>" and pgB = examplePage
               and dss = "[\<lparr>label = ''General'', pointsOf = exampleSeries\<rparr>]" and D = utcDates]
    by (simp add: f3 f)
  have b: "buildDatasets utcDates (examplePage\<lparr>clock := 0\<rparr>)
     [\<lparr>label = ''General'', pointsOf = exampleSeries\<rparr>]
   = buildDatasets utcDates examplePage [\<lparr>label = ''General'', pointsOf = exampleSeries\<rparr>]"
    using buildDatasets_deterministic
            [where pg = examplePage and c = 0 and D = utcDates
               and dss = "[\<lparr>label = ''General'', pointsOf = exampleSeries\<rparr>]"]
    by (simp add: examplePage_def)
  from a b f3 show ?thesis by simp
qed

section \<open>Double precision: proofs\<close>

lemma roundShift_nearest: "\<bar>2 * (roundShift m k * 2 ^ k - m)\<bar> \<le> 2 ^ k"
proof -
  define q where "q = m div 2 ^ k"
  define r where "r = m mod 2 ^ k"
  have m: "m = q * 2 ^ k + r" unfolding q_def r_def by (rule div_mult_mod_eq [symmetric])
  have r: "0 \<le> r" "r < 2 ^ k" by (simp_all add: r_def)
  have "roundShift m k = q \<and> 2 * r \<le> 2 ^ k \<or> roundShift m k = q + 1 \<and> 2 ^ k \<le> 2 * r"
    unfolding roundShift_def q_def [symmetric] r_def [symmetric] Let_def by auto
  then show ?thesis
  proof
    assume "roundShift m k = q \<and> 2 * r \<le> 2 ^ k"
    then show ?thesis using r by (simp add: m)
  next
    assume a: "roundShift m k = q + 1 \<and> 2 ^ k \<le> 2 * r"
    then have "2 * (roundShift m k * 2 ^ k - m) = 2 * (2 ^ k - r)"
      by (simp add: m algebra_simps)
    then show ?thesis using a r by simp
  qed
qed

lemma roundShift_tie_even: "2 * (m mod 2 ^ k) = 2 ^ k \<Longrightarrow> even (roundShift m k)"
  by (simp add: roundShift_def Let_def)

lemma bitLength_bound: "m < 2 ^ n \<Longrightarrow> bitLength m \<le> n"
proof (induction n arbitrary: m)
  case 0
  then show ?case by (subst bitLength.simps) simp
next
  case (Suc n)
  show ?case
  proof (cases "m \<le> 0")
    case True
    then show ?thesis by (subst bitLength.simps) simp
  next
    case False
    from Suc.prems have "m div 2 < 2 ^ n" by simp
    from Suc.IH [OF this] False show ?thesis by (subst bitLength.simps) simp
  qed
qed

lemma fl_exact:
  assumes "\<bar>m\<bar> < 2 ^ 53" and "- 1074 \<le> e" and "m \<noteq> 0"
  shows "fl (m, e) = (m, e)"
proof -
  have "bitLength \<bar>m\<bar> \<le> 53" using assms(1) by (rule bitLength_bound)
  then show ?thesis using assms by (simp add: fl_def Let_def)
qed

lemma f64_literals:
  "fdiv (7, 0) (10, 0) = (6305039478318694, - 53)"
  "fdiv (1, 0) (10000000000, 0) = (7737125245533627, - 86)"
  by code_simp+

lemma share_45_7_10:
  "Math_round_f64 (fmul (ofInt 45) (fdiv (ofInt 7) (ofInt 10))) = 31"
  by code_simp

lemma share_200_51_100:
  "Math_round_f64 (fmul (ofInt 200) (fdiv (ofInt 51) (ofInt 100))) = 102"
  by code_simp

lemma sameInstant_det_f64: "normalDet_f64 sameInstantPoints = (- 1, 32)"
  by code_simp

lemma sameInstant_f64:
  "linearRegression_f64 sameInstantPoints = Some ((0, 0), (8620171161763840, - 44))"
  by code_simp

lemma secondApart_det_f64: "normalDet_f64 secondApartPoints = (0, 0)"
  by code_simp

lemma secondApart_f64: "linearRegression_f64 secondApartPoints = None"
  by code_simp

lemma sameInstant_exact:
  "realPoints sameInstantPoints
     = [(1704499200000, 500), (1704499200000, 490), (1704499200000, 480)]"
  "normalDet (realPoints sameInstantPoints) = 0"
  by (simp_all add: realPoints_def sameInstantPoints_def toReal_def normalDet_def)

lemma secondApart_exact:
  "realPoints secondApartPoints = [(1704499200000, 500), (1704499201000, 490)]"
  "normalDet (realPoints secondApartPoints) = 1000000"
  by (simp_all add: realPoints_def secondApartPoints_def toReal_def normalDet_def)

text \<open>
  C5.  The source does not do what the claim says.  For three points at the same instant
  the determinant \<open>n * \<Sigma>x\<^sup>2 - (\<Sigma>x)\<^sup>2\<close> is zero, yet the source computes
  \<open>d = -4294967296\<close> in double precision and returns a model, with slope zero and
  intercept 490.  For two points one second apart the determinant is \<open>10\<^sup>6\<close>, yet the
  source computes \<open>d = 0\<close> and returns no model.
\<close>

theorem linearRegression_f64_misjudges_determinant:
  "normalDet (realPoints sameInstantPoints) = 0 \<and>
   toReal (normalDet_f64 sameInstantPoints) = - 4294967296 \<and>
   map_option (\<lambda>r. (toReal (fst r), toReal (snd r))) (linearRegression_f64 sameInstantPoints)
     = Some (0, 490) \<and>
   normalDet (realPoints secondApartPoints) = 1000000 \<and>
   toReal (normalDet_f64 secondApartPoints) = 0 \<and>
   linearRegression_f64 secondApartPoints = None"
  by (simp add: sameInstant_exact(2) secondApart_exact(2) sameInstant_det_f64 sameInstant_f64
      secondApart_det_f64 secondApart_f64 toReal_def)

lemma fortyFive_f64: "countAboveScore_f64 fortyFiveSnapshot 494 = 31"
  by (simp add: countAboveScore_f64_def scoreRanges_def fortyFiveSnapshot_def bandCount_def
      rangeHi_def parseInt_def isDigit_def share_45_7_10)

lemma fortyFive_formula: "countAtOrAbove fortyFiveSnapshot 494 = 32"
  by (simp add: countAtOrAbove_def scoreRanges_def fortyFiveSnapshot_def bandCount_def
      bandContribution_def Math_round_def)

lemma example_202_f64:
  "countAboveScore_f64
     \<lparr>snapDate = day, snapRanges = m(''601-1200'' \<mapsto> 100, ''501-600'' \<mapsto> 200), snapTotal = n\<rparr>
     550 = 202"
  by (simp add: countAboveScore_f64_def scoreRanges_def bandCount_def rangeHi_def parseInt_def
      isDigit_def share_200_51_100)

text \<open>
  C3.  The source does not do what the claim says for every share.  With 45 candidates in
  the range 491-500 and the threshold 494, the straddled range should add
  \<open>round (45 * 7 / 10) = round 31.5 = 32\<close>; the source computes
  \<open>Math.round(45 * (7 / 10))\<close> in double precision, where the product is
  \<open>31.499999999999996\<close>, and adds 31.  On the claim's own example, whose share is the
  integer 102, the source returns 202.
\<close>

theorem countAboveScore_f64_rounds_half_down:
  "countAboveScore_f64 fortyFiveSnapshot 494 = 31 \<and>
   countAtOrAbove fortyFiveSnapshot 494 = 32 \<and>
   countAboveScore_f64
     \<lparr>snapDate = day, snapRanges = m(''601-1200'' \<mapsto> 100, ''501-600'' \<mapsto> 200), snapTotal = n\<rparr>
     550 = 202"
  by (simp only: fortyFive_f64 fortyFive_formula example_202_f64)

end
